theory Spec2Isabelle
  imports Complex_Main
begin

section \<open>Geometry types (src/types.d.ts)\<close>

text \<open>
  The TypeScript \<open>number\<close> is modelled as \<open>real\<close>. The first sections compute in
  exact arithmetic; the section on the program's arithmetic follows the same functions
  once more with the rounding of IEEE doubles as a parameter. Optional fields are
  \<open>option\<close>s.
\<close>

record ArtworkMeta =
  "file" :: string
  title :: "string option"
  author :: "string option"
  year :: "string option"
  description :: "string option"

text \<open>A record with the mandatory field only; the optional ones are absent.\<close>

definition art :: "string \<Rightarrow> ArtworkMeta" where
  "art f = \<lparr>file = f, title = None, author = None, year = None, description = None\<rparr>"

record Bounds =
  minX :: real
  maxX :: real
  minY :: real
  maxY :: real
  minZ :: real
  maxZ :: real

text \<open>Axis-aligned wall collider (X/Z plane).\<close>

record RectXZ =
  minX :: real
  maxX :: real
  minZ :: real
  maxZ :: real

section \<open>The gallery builder (gallery.ts)\<close>

text \<open>The literal type \<open>1 | -1\<close> of a wall normal, and its numeric value.\<close>

datatype normal = Plus1 | Minus1

fun nval :: "normal \<Rightarrow> real" where
  "nval Plus1 = 1"
| "nval Minus1 = - 1"

text \<open>
  A straight wall segment we can hang to. \<open>SegX z x0 x1 nZ\<close> is long along X with its
  normal along Z; \<open>SegZ x z0 z1 nX\<close> is long along Z with its normal along X.
\<close>

datatype WallSeg =
    SegX real real real normal
  | SegZ real real real normal

subsection \<open>Dimensions (meters)\<close>

definition H_wall :: real where "H_wall = 3.6"
definition WALL_T :: real where "WALL_T = 0.22"
definition DOOR_W :: real where "DOOR_W = 3.0"
definition WALL_GAP :: real where "WALL_GAP = 0.2"
definition CAP_MARGIN :: real where "CAP_MARGIN = 0.80"
definition SPACING :: real where "SPACING = 3.6"
definition FRAME_W :: real where "FRAME_W = 1.8"
definition HALF_W :: real where "HALF_W = FRAME_W * 0.5"

text \<open>Room rectangles: the object literals \<open>{x0, x1, z0, z1}\<close>.\<close>

record RoomRect =
  rx0 :: real
  rx1 :: real
  rz0 :: real
  rz1 :: real

definition R_ATRIUM :: RoomRect where
  "R_ATRIUM = \<lparr>rx0 = - 16, rx1 = 16, rz0 = - 10, rz1 = 10\<rparr>"
definition R_NORTH :: RoomRect where
  "R_NORTH = \<lparr>rx0 = - 14, rx1 = 14, rz0 = 10, rz1 = 24\<rparr>"
definition R_EAST :: RoomRect where
  "R_EAST = \<lparr>rx0 = 16, rx1 = 30, rz0 = - 8, rz1 = 8\<rparr>"
definition R_WEST :: RoomRect where
  "R_WEST = \<lparr>rx0 = - 30, rx1 = - 16, rz0 = - 8, rz1 = 8\<rparr>"

definition MIN_X :: real where
  "MIN_X = min (min (min (rx0 R_ATRIUM) (rx0 R_NORTH)) (rx0 R_EAST)) (rx0 R_WEST)"
definition MAX_X :: real where
  "MAX_X = max (max (max (rx1 R_ATRIUM) (rx1 R_NORTH)) (rx1 R_EAST)) (rx1 R_WEST)"
definition MIN_Z :: real where
  "MIN_Z = min (min (min (rz0 R_ATRIUM) (rz0 R_NORTH)) (rz0 R_EAST)) (rz0 R_WEST)"
definition MAX_Z :: real where
  "MAX_Z = max (max (max (rz1 R_ATRIUM) (rz1 R_NORTH)) (rz1 R_EAST)) (rz1 R_WEST)"

subsection \<open>Walls: colliders and hangable segments\<close>

text \<open>
  The two arrays \<open>colliders\<close> and \<open>segs\<close> that \<open>addWallX\<close> and \<open>addWallZ\<close> push to.
  The meshes added to the scene are rendering only and are not modelled.
\<close>

record walls =
  colliders :: "RectXZ list"
  segs :: "WallSeg list"

definition no_walls :: walls where
  "no_walls = \<lparr>colliders = [], segs = []\<rparr>"

text \<open>
  \<open>addWallX z x0 x1 normalToward leaveDoorAt\<close>: the optional parameter is an \<open>option\<close>;
  with a doorway the function calls itself without one for each side that is longer than
  0.01, and returns.
\<close>

function addWallX :: "real \<Rightarrow> real \<Rightarrow> real \<Rightarrow> normal \<Rightarrow> real option \<Rightarrow> walls \<Rightarrow> walls" where
  "addWallX z x0 x1 normalToward (Some leaveDoorAt) w =
     (let d0 = leaveDoorAt - DOOR_W / 2;
          d1 = leaveDoorAt + DOOR_W / 2;
          w1 = (if d0 > x0 + 0.01 then addWallX z x0 d0 normalToward None w else w);
          w2 = (if x1 > d1 + 0.01 then addWallX z d1 x1 normalToward None w1 else w1)
      in w2)"
| "addWallX z x0 x1 normalToward None w =
     (let len = x1 - x0;
          cx = (x0 + x1) / 2
      in w\<lparr>colliders := colliders w @
             [\<lparr>minX = cx - len / 2,
               maxX = cx + len / 2,
               minZ = z + (if nval normalToward > 0 then 0 else - WALL_T),
               maxZ = z + (if nval normalToward > 0 then WALL_T else 0)\<rparr>],
           segs := segs w @ [SegX (z + nval normalToward * (WALL_T / 2)) x0 x1 normalToward]\<rparr>)"
  by pat_completeness auto
termination
  by (relation "measure (\<lambda>(z, x0, x1, normalToward, leaveDoorAt, w).
        case leaveDoorAt of Some c \<Rightarrow> 1 | None \<Rightarrow> 0)") auto

function addWallZ :: "real \<Rightarrow> real \<Rightarrow> real \<Rightarrow> normal \<Rightarrow> real option \<Rightarrow> walls \<Rightarrow> walls" where
  "addWallZ x z0 z1 normalToward (Some leaveDoorAt) w =
     (let d0 = leaveDoorAt - DOOR_W / 2;
          d1 = leaveDoorAt + DOOR_W / 2;
          w1 = (if d0 > z0 + 0.01 then addWallZ x z0 d0 normalToward None w else w);
          w2 = (if z1 > d1 + 0.01 then addWallZ x d1 z1 normalToward None w1 else w1)
      in w2)"
| "addWallZ x z0 z1 normalToward None w =
     (let len = z1 - z0;
          cz = (z0 + z1) / 2
      in w\<lparr>colliders := colliders w @
             [\<lparr>minX = x + (if nval normalToward > 0 then 0 else - WALL_T),
               maxX = x + (if nval normalToward > 0 then WALL_T else 0),
               minZ = cz - len / 2,
               maxZ = cz + len / 2\<rparr>],
           segs := segs w @ [SegZ (x + nval normalToward * (WALL_T / 2)) z0 z1 normalToward]\<rparr>)"
  by pat_completeness auto
termination
  by (relation "measure (\<lambda>(x, z0, z1, normalToward, leaveDoorAt, w).
        case leaveDoorAt of Some c \<Rightarrow> 1 | None \<Rightarrow> 0)") auto

text \<open>
  Build rooms with doorways and dividers: the calls of the source as data, in its order,
  and the builder state after running them.
\<close>

datatype wall_call =
    WallX real real real normal "real option"
  | WallZ real real real normal "real option"

fun run_call :: "wall_call \<Rightarrow> walls \<Rightarrow> walls" where
  "run_call (WallX z x0 x1 normalToward leaveDoorAt) w = addWallX z x0 x1 normalToward leaveDoorAt w"
| "run_call (WallZ x z0 z1 normalToward leaveDoorAt) w = addWallZ x z0 z1 normalToward leaveDoorAt w"

definition wall_calls :: "wall_call list" where
  "wall_calls =
    [ \<comment> \<open>Atrium outer\<close>
      WallX (rz0 R_ATRIUM) (rx0 R_ATRIUM) (rx1 R_ATRIUM) Plus1 (Some 0),
      WallX (rz1 R_ATRIUM) (rx0 R_ATRIUM) (rx1 R_ATRIUM) Minus1 (Some 0),
      WallZ (rx0 R_ATRIUM) (rz0 R_ATRIUM) (rz1 R_ATRIUM) Plus1 (Some 0),
      WallZ (rx1 R_ATRIUM) (rz0 R_ATRIUM) (rz1 R_ATRIUM) Minus1 (Some 0),
      \<comment> \<open>Atrium internal dividers\<close>
      WallX ((rz0 R_ATRIUM + rz1 R_ATRIUM) / 2 - 2.0) (rx0 R_ATRIUM + 2) (rx1 R_ATRIUM - 2) Plus1 None,
      WallZ ((rx0 R_ATRIUM + rx1 R_ATRIUM) / 2 - 4.0) (rz0 R_ATRIUM + 2) (rz1 R_ATRIUM - 2) Plus1 None,
      \<comment> \<open>North gallery\<close>
      WallX (rz0 R_NORTH) (rx0 R_NORTH) (rx1 R_NORTH) Plus1 (Some 0),
      WallX (rz1 R_NORTH) (rx0 R_NORTH) (rx1 R_NORTH) Minus1 None,
      WallZ (rx0 R_NORTH) (rz0 R_NORTH) (rz1 R_NORTH) Plus1 None,
      WallZ (rx1 R_NORTH) (rz0 R_NORTH) (rz1 R_NORTH) Minus1 None,
      WallX (rz0 R_NORTH + 4.0) (rx0 R_NORTH + 2.0) (rx1 R_NORTH - 6.0) Plus1 None,
      WallZ (rx1 R_NORTH - 6.0) (rz0 R_NORTH + 4.0) (rz1 R_NORTH - 2.0) Minus1 None,
      \<comment> \<open>East gallery\<close>
      WallZ (rx0 R_EAST) (rz0 R_EAST) (rz1 R_EAST) Plus1 (Some 0),
      WallZ (rx1 R_EAST) (rz0 R_EAST) (rz1 R_EAST) Minus1 None,
      WallX (rz0 R_EAST) (rx0 R_EAST) (rx1 R_EAST) Plus1 None,
      WallX (rz1 R_EAST) (rx0 R_EAST) (rx1 R_EAST) Minus1 None,
      WallX ((rz0 R_EAST + rz1 R_EAST) / 2) (rx0 R_EAST + 2.0) (rx1 R_EAST - 2.0) Plus1 None,
      \<comment> \<open>West gallery\<close>
      WallZ (rx1 R_WEST) (rz0 R_WEST) (rz1 R_WEST) Minus1 (Some 0),
      WallZ (rx0 R_WEST) (rz0 R_WEST) (rz1 R_WEST) Plus1 None,
      WallX (rz0 R_WEST) (rx0 R_WEST) (rx1 R_WEST) Plus1 None,
      WallX (rz1 R_WEST) (rx0 R_WEST) (rx1 R_WEST) Minus1 None,
      WallZ ((rx0 R_WEST + rx1 R_WEST) / 2) (rz0 R_WEST + 2.0) (rz1 R_WEST - 2.0) Plus1 None,
      WallX ((rz0 R_WEST + rz1 R_WEST) / 2 - 2.0) (rx0 R_WEST + 2.0) (rx1 R_WEST - 2.0) Plus1 None ]"

definition buildWalls :: walls where
  "buildWalls = fold run_call wall_calls no_walls"

text \<open>
  Vocabulary for the walls: a point of the long axis lies on a segment; a collider is not
  degenerate; a collider matches a segment when it has the segment's span along the wall
  and the segment's plane lies strictly between its two faces; a doorway lies within its
  run.
\<close>

definition onSegX :: "real \<Rightarrow> WallSeg \<Rightarrow> bool" where
  "onSegX p s = (case s of SegX sz a b n \<Rightarrow> a \<le> p \<and> p \<le> b | SegZ sx a b n \<Rightarrow> False)"

definition onSegZ :: "real \<Rightarrow> WallSeg \<Rightarrow> bool" where
  "onSegZ p s = (case s of SegZ sx a b n \<Rightarrow> a \<le> p \<and> p \<le> b | SegX sz a b n \<Rightarrow> False)"



fun doorWithinRun :: "wall_call \<Rightarrow> bool" where
  "doorWithinRun (WallX z lo hi n (Some c)) = (lo \<le> c - DOOR_W / 2 \<and> c + DOOR_W / 2 \<le> hi)"
| "doorWithinRun (WallZ x lo hi n (Some c)) = (lo \<le> c - DOOR_W / 2 \<and> c + DOOR_W / 2 \<le> hi)"
| "doorWithinRun (WallX z lo hi n None) = True"
| "doorWithinRun (WallZ x lo hi n None) = True"

subsection \<open>Painting placement\<close>

text \<open>
  \<open>new Frame(meta, url, FRAME_W)\<close> with the position and the rotation about Y the builder
  sets on it; \<open>scene.add(f)\<close> appends it to \<open>scene\<close>. The cursor \<open>idx\<close> and the frames
  added so far are the state the two \<open>hangOnSeg\<close> closures share.
\<close>

record PlacedFrame =
  meta :: ArtworkMeta
  url :: string
  frameW :: real
  posX :: real
  posY :: real
  posZ :: real
  rotY :: real

record hang =
  idx :: nat
  scene :: "PlacedFrame list"

text \<open>
  Corner collision check of \<open>hangOnSegX\<close>: \<open>segs.some\<close> over the walls perpendicular to
  an X wall.
\<close>

definition hitWallX :: "WallSeg list \<Rightarrow> real \<Rightarrow> real \<Rightarrow> bool" where
  "hitWallX sgs x z =
     list_ex (\<lambda>other. case other of
         SegZ ox oz0 oz1 onX \<Rightarrow>
           (let nearX = \<bar>ox - x\<bar> < HALF_W + 0.05;
                insideZ = (z \<ge> oz0 - 0.05 \<and> z \<le> oz1 + 0.05)
            in nearX \<and> insideZ)
       | SegX oz ox0 ox1 onZ \<Rightarrow> False) sgs"

definition hitWallZ :: "WallSeg list \<Rightarrow> real \<Rightarrow> real \<Rightarrow> bool" where
  "hitWallZ sgs x z =
     list_ex (\<lambda>other. case other of
         SegX oz ox0 ox1 onZ \<Rightarrow>
           (let nearZ = \<bar>oz - z\<bar> < HALF_W + 0.05;
                insideX = (x \<ge> ox0 - 0.05 \<and> x \<le> ox1 + 0.05)
            in nearZ \<and> insideX)
       | SegZ ox oz0 oz1 onX \<Rightarrow> False) sgs"

text \<open>
  The \<open>for\<close> loop of \<open>hangOnSegX\<close> from counter \<open>i\<close> on; \<open>count\<close> and \<open>i\<close> are integral.
  The read \<open>frames[idx++]\<close> is in range by the loop condition.
\<close>

function hangOnSegX_loop ::
  "WallSeg list \<Rightarrow> string \<Rightarrow> ArtworkMeta list \<Rightarrow> real \<Rightarrow> normal \<Rightarrow> int \<Rightarrow> real \<Rightarrow> real \<Rightarrow>
   int \<Rightarrow> hang \<Rightarrow> hang" where
  "hangOnSegX_loop sgs imagesBase frames segz nZ count startX endX i st =
     (if i < count \<and> idx st < length frames then
        (let t = (if count = 1 then 0.5 else real_of_int i / real_of_int (count - 1));
             x = startX + t * (endX - startX);
             z = segz + (if nval nZ > 0 then WALL_GAP else - WALL_GAP)
         in if hitWallX sgs x z
            then hangOnSegX_loop sgs imagesBase frames segz nZ count startX endX (i + 1) st
            else
              (let m = frames ! idx st;
                   f = \<lparr>meta = m, url = imagesBase @ ''/'' @ file m, frameW = FRAME_W,
                        posX = x, posY = 1.6, posZ = z,
                        rotY = (if nval nZ > 0 then 0 else pi)\<rparr>
               in hangOnSegX_loop sgs imagesBase frames segz nZ count startX endX (i + 1)
                    (st\<lparr>idx := idx st + 1, scene := scene st @ [f]\<rparr>)))
      else st)"
  by pat_completeness auto
termination
  by (relation "measure (\<lambda>(sgs, imagesBase, frames, segz, nZ, count, startX, endX, i, st).
        nat (count - i))") auto

declare hangOnSegX_loop.simps [simp del]

function hangOnSegZ_loop ::
  "WallSeg list \<Rightarrow> string \<Rightarrow> ArtworkMeta list \<Rightarrow> real \<Rightarrow> normal \<Rightarrow> int \<Rightarrow> real \<Rightarrow> real \<Rightarrow>
   int \<Rightarrow> hang \<Rightarrow> hang" where
  "hangOnSegZ_loop sgs imagesBase frames segx nX count startZ endZ i st =
     (if i < count \<and> idx st < length frames then
        (let t = (if count = 1 then 0.5 else real_of_int i / real_of_int (count - 1));
             z = startZ + t * (endZ - startZ);
             x = segx + (if nval nX > 0 then WALL_GAP else - WALL_GAP)
         in if hitWallZ sgs x z
            then hangOnSegZ_loop sgs imagesBase frames segx nX count startZ endZ (i + 1) st
            else
              (let m = frames ! idx st;
                   f = \<lparr>meta = m, url = imagesBase @ ''/'' @ file m, frameW = FRAME_W,
                        posX = x, posY = 1.6, posZ = z,
                        rotY = (if nval nX > 0 then pi / 2 else - pi / 2)\<rparr>
               in hangOnSegZ_loop sgs imagesBase frames segx nX count startZ endZ (i + 1)
                    (st\<lparr>idx := idx st + 1, scene := scene st @ [f]\<rparr>)))
      else st)"
  by pat_completeness auto
termination
  by (relation "measure (\<lambda>(sgs, imagesBase, frames, segx, nX, count, startZ, endZ, i, st).
        nat (count - i))") auto

declare hangOnSegZ_loop.simps [simp del]

text \<open>
  \<open>hangOnSegX\<close> and \<open>hangOnSegZ\<close> take the fields of a segment of their kind:
  the wall plane, the span and the normal.
\<close>

definition hangOnSegX ::
  "WallSeg list \<Rightarrow> string \<Rightarrow> ArtworkMeta list \<Rightarrow> real \<Rightarrow> real \<Rightarrow> real \<Rightarrow> normal \<Rightarrow> hang \<Rightarrow> hang" where
  "hangOnSegX sgs imagesBase frames segz segx0 segx1 nZ st =
     (let usable = (segx1 - segx0) - 2 * (CAP_MARGIN + HALF_W)
      in if usable \<le> 0 then st
         else
           (let count = \<lfloor>usable / SPACING\<rfloor> + 1;
                startX = segx0 + CAP_MARGIN + HALF_W;
                endX = segx1 - CAP_MARGIN - HALF_W
            in hangOnSegX_loop sgs imagesBase frames segz nZ count startX endX 0 st))"

definition hangOnSegZ ::
  "WallSeg list \<Rightarrow> string \<Rightarrow> ArtworkMeta list \<Rightarrow> real \<Rightarrow> real \<Rightarrow> real \<Rightarrow> normal \<Rightarrow> hang \<Rightarrow> hang" where
  "hangOnSegZ sgs imagesBase frames segx segz0 segz1 nX st =
     (let usable = (segz1 - segz0) - 2 * (CAP_MARGIN + HALF_W)
      in if usable \<le> 0 then st
         else
           (let count = \<lfloor>usable / SPACING\<rfloor> + 1;
                startZ = segz0 + CAP_MARGIN + HALF_W;
                endZ = segz1 - CAP_MARGIN - HALF_W
            in hangOnSegZ_loop sgs imagesBase frames segx nX count startZ endZ 0 st))"

text \<open>
  The final loop \<open>for (const seg of segs)\<close> over the remaining segments \<open>rest\<close>, with its
  \<open>break\<close> once the records are used up; \<open>sgs\<close> is the whole array, which the corner
  check reads.
\<close>

fun hangAll :: "WallSeg list \<Rightarrow> string \<Rightarrow> ArtworkMeta list \<Rightarrow> WallSeg list \<Rightarrow> hang \<Rightarrow> hang" where
  "hangAll sgs imagesBase frames [] st = st"
| "hangAll sgs imagesBase frames (seg # rest) st =
     (if idx st \<ge> length frames then st
      else hangAll sgs imagesBase frames rest
             (case seg of
                SegX segz segx0 segx1 nZ \<Rightarrow> hangOnSegX sgs imagesBase frames segz segx0 segx1 nZ st
              | SegZ segx segz0 segz1 nX \<Rightarrow> hangOnSegZ sgs imagesBase frames segx segz0 segz1 nX st))"

subsection \<open>buildGallery\<close>

record Vec3 =
  vx :: real
  vy :: real
  vz :: real

record BuildOpts =
  imagesBase :: string
  artworks :: "ArtworkMeta list"

text \<open>
  The placement run inside \<open>buildGallery\<close>: the cursor and the frames added to the scene
  when the loop over the segments is done.
\<close>

definition placement :: "BuildOpts \<Rightarrow> hang" where
  "placement opts =
     (let frames = artworks opts
      in hangAll (segs buildWalls) (imagesBase opts) frames (segs buildWalls)
           \<lparr>idx = 0, scene = []\<rparr>)"

text \<open>
  The object \<open>buildGallery\<close> returns (its \<open>root\<close> is an empty group), and \<open>buildGallery\<close>
  itself: the frames it has added to the scene, and the returned object. The floor, the
  wall and ceiling meshes and the lights it also adds to the scene do not depend on its
  input and are not modelled.
\<close>

record gallery =
  suggestedSpawn :: Vec3
  bounds :: Bounds
  colliders :: "RectXZ list"

definition buildGallery :: "BuildOpts \<Rightarrow> PlacedFrame list \<times> gallery" where
  "buildGallery opts =
     (scene (placement opts),
      \<lparr>suggestedSpawn =
         \<lparr>vx = (rx0 R_ATRIUM + rx1 R_ATRIUM) / 2 - 6, vy = 1.6,
          vz = (rz0 R_ATRIUM + rz1 R_ATRIUM) / 2\<rparr>,
       bounds =
         \<lparr>Bounds.minX = MIN_X + 0.6, Bounds.maxX = MAX_X - 0.6,
          Bounds.minY = 0.9, Bounds.maxY = H_wall - 0.4,
          Bounds.minZ = MIN_Z + 0.6, Bounds.maxZ = MAX_Z - 0.6\<rparr>,
       colliders = walls.colliders buildWalls\<rparr>)"

text \<open>The number of records left over when the run is done.\<close>

definition unplaced :: "BuildOpts \<Rightarrow> nat" where
  "unplaced opts = length (artworks opts) - idx (placement opts)"

subsection \<open>The placement as a list of slots\<close>

text \<open>
  A second description of the placement, to compare the loops with: the candidate slots of
  a segment at their positions, the ones the corner check accepts, and the records handed
  to the accepted slots in order.
\<close>

datatype slot = SlotX normal real real | SlotZ normal real real

definition frameAt :: "string \<Rightarrow> ArtworkMeta \<Rightarrow> slot \<Rightarrow> PlacedFrame" where
  "frameAt base m s =
     (case s of
        SlotX n px pz \<Rightarrow>
          \<lparr>meta = m, url = base @ ''/'' @ file m, frameW = FRAME_W,
           posX = px, posY = 1.6, posZ = pz, rotY = (if nval n > 0 then 0 else pi)\<rparr>
      | SlotZ n px pz \<Rightarrow>
          \<lparr>meta = m, url = base @ ''/'' @ file m, frameW = FRAME_W,
           posX = px, posY = 1.6, posZ = pz,
           rotY = (if nval n > 0 then pi / 2 else - pi / 2)\<rparr>)"

text \<open>
  Position of candidate \<open>i\<close> of \<open>count\<close> along a span \<open>[lo, hi]\<close>: the midpoint for a single
  slot, else the interpolation between \<open>lo + margin + halfWidth\<close> and
  \<open>hi - margin - halfWidth\<close>.
\<close>

definition slotAlong :: "real \<Rightarrow> real \<Rightarrow> int \<Rightarrow> int \<Rightarrow> real" where
  "slotAlong lo hi count i =
     (if count = 1 then (lo + hi) / 2
      else (lo + CAP_MARGIN + HALF_W) +
           (real_of_int i / real_of_int (count - 1)) *
             ((hi - CAP_MARGIN - HALF_W) - (lo + CAP_MARGIN + HALF_W)))"

definition slotCount :: "real \<Rightarrow> real \<Rightarrow> int" where
  "slotCount lo hi =
     (let usable = (hi - lo) - 2 * (CAP_MARGIN + HALF_W)
      in if usable \<le> 0 then 0 else \<lfloor>usable / SPACING\<rfloor> + 1)"

definition offWall :: "real \<Rightarrow> normal \<Rightarrow> real" where
  "offWall plane n = plane + (if nval n > 0 then WALL_GAP else - WALL_GAP)"

fun slotHit :: "WallSeg list \<Rightarrow> slot \<Rightarrow> bool" where
  "slotHit sgs (SlotX n px pz) = hitWallX sgs px pz"
| "slotHit sgs (SlotZ n px pz) = hitWallZ sgs px pz"

fun candidates :: "WallSeg \<Rightarrow> slot list" where
  "candidates (SegX segz lo hi n) =
     map (\<lambda>i. SlotX n (slotAlong lo hi (slotCount lo hi) i) (offWall segz n))
       [0..slotCount lo hi - 1]"
| "candidates (SegZ segx lo hi n) =
     map (\<lambda>i. SlotZ n (offWall segx n) (slotAlong lo hi (slotCount lo hi) i))
       [0..slotCount lo hi - 1]"

definition accepted :: "WallSeg list \<Rightarrow> WallSeg \<Rightarrow> slot list" where
  "accepted sgs seg = filter (\<lambda>s. \<not> slotHit sgs s) (candidates seg)"

definition allAccepted :: "WallSeg list \<Rightarrow> slot list" where
  "allAccepted sgs = concat (map (accepted sgs) sgs)"

fun consume :: "string \<Rightarrow> ArtworkMeta list \<Rightarrow> slot list \<Rightarrow> hang \<Rightarrow> hang" where
  "consume base frames [] st = st"
| "consume base frames (s # ss) st =
     (if idx st < length frames
      then consume base frames ss
             (st\<lparr>idx := idx st + 1, scene := scene st @ [frameAt base (frames ! idx st) s]\<rparr>)
      else st)"

section \<open>First-person controls (controls.ts)\<close>

text \<open>
  The state of the closure \<open>createControls\<close> returns: the held keys, the pointer-lock
  flag, yaw and pitch, the camera's rotation and position, and the optional bounds and
  the colliders, which \<open>setBounds\<close> and \<open>setColliders\<close> replace.
\<close>

record controls =
  keys :: "string set"
  isLocked :: bool
  yaw :: real
  pitch :: real
  cameraRotation :: Vec3
  cameraPosition :: Vec3
  bounds :: "Bounds option"
  colliders :: "RectXZ list"

definition sensitivity :: real where "sensitivity = 0.0025"
definition playerRadius :: real where "playerRadius = 0.35"

definition createControls :: "Vec3 \<Rightarrow> Vec3 \<Rightarrow> Bounds option \<Rightarrow> RectXZ list \<Rightarrow> controls" where
  "createControls camRot camPos b cs =
     \<lparr>keys = {}, isLocked = False, yaw = 0, pitch = 0,
      cameraRotation = camRot, cameraPosition = camPos,
      bounds = b, colliders = cs\<rparr>"

definition pointerlockchange :: "bool \<Rightarrow> controls \<Rightarrow> controls" where
  "pointerlockchange onCanvas c = c\<lparr>isLocked := onCanvas\<rparr>"

definition mousemove :: "real \<Rightarrow> real \<Rightarrow> controls \<Rightarrow> controls" where
  "mousemove movementX movementY c =
     (if \<not> isLocked c then c
      else
        (let yaw1 = yaw c - movementX * sensitivity;
             pitch1 = pitch c - movementY * sensitivity;
             lim = pi / 2 - 0.08;
             pitch2 = max (- lim) (min lim pitch1)
         in c\<lparr>yaw := yaw1, pitch := pitch2,
              cameraRotation := \<lparr>vx = pitch2, vy = yaw1, vz = 0\<rparr>\<rparr>))"

definition clampBounds :: "Bounds option \<Rightarrow> Vec3 \<Rightarrow> Vec3" where
  "clampBounds bnds v =
     (case bnds of
        None \<Rightarrow> v
      | Some b \<Rightarrow>
          \<lparr>vx = min (Bounds.maxX b) (max (Bounds.minX b) (vx v)),
           vy = min (Bounds.maxY b) (max (Bounds.minY b) (vy v)),
           vz = min (Bounds.maxZ b) (max (Bounds.minZ b) (vz v))\<rparr>)"

fun collides :: "RectXZ list \<Rightarrow> real \<Rightarrow> real \<Rightarrow> bool" where
  "collides [] x z = False"
| "collides (r # rs) x z =
     (let hit = (x > RectXZ.minX r - playerRadius \<and> x < RectXZ.maxX r + playerRadius \<and>
                 z > RectXZ.minZ r - playerRadius \<and> z < RectXZ.maxZ r + playerRadius)
      in if hit then True else collides rs x z)"

text \<open>
  The operations of three.js' \<open>Vector3\<close> that \<open>update\<close> uses, as the library defines
  them; \<open>normalize\<close> divides by the length, or by 1 when the length is 0.
\<close>

definition UP :: Vec3 where "UP = \<lparr>vx = 0, vy = 1, vz = 0\<rparr>"

definition normalize :: "Vec3 \<Rightarrow> Vec3" where
  "normalize v =
     (let len = sqrt (vx v * vx v + vy v * vy v + vz v * vz v);
          d = (if len = 0 then 1 else len)
      in \<lparr>vx = vx v / d, vy = vy v / d, vz = vz v / d\<rparr>)"

definition crossVectors :: "Vec3 \<Rightarrow> Vec3 \<Rightarrow> Vec3" where
  "crossVectors a b =
     \<lparr>vx = vy a * vz b - vz a * vy b,
      vy = vz a * vx b - vx a * vz b,
      vz = vx a * vy b - vy a * vx b\<rparr>"

definition addScaledVector :: "Vec3 \<Rightarrow> Vec3 \<Rightarrow> real \<Rightarrow> Vec3" where
  "addScaledVector v a k = \<lparr>vx = vx v + vx a * k, vy = vy v + vy a * k, vz = vz v + vz a * k\<rparr>"

text \<open>The displacement \<open>move\<close> that \<open>update\<close> computes from the keys, the yaw and \<open>dt\<close>.\<close>

definition moveOf :: "controls \<Rightarrow> real \<Rightarrow> Vec3" where
  "moveOf c dt =
     (let speed = 3.0;
          fwd = (if ''w'' \<in> keys c \<or> ''arrowup'' \<in> keys c then 1
                 else if ''s'' \<in> keys c \<or> ''arrowdown'' \<in> keys c then - 1 else 0);
          str = (if ''d'' \<in> keys c \<or> ''arrowright'' \<in> keys c then 1
                 else if ''a'' \<in> keys c \<or> ''arrowleft'' \<in> keys c then - 1 else 0);
          forwardDir = normalize \<lparr>vx = - sin (yaw c), vy = 0, vz = - cos (yaw c)\<rparr>;
          rightDir = normalize (crossVectors forwardDir UP)
      in addScaledVector
           (addScaledVector \<lparr>vx = 0, vy = 0, vz = 0\<rparr> forwardDir (fwd * speed * dt))
           rightDir (str * speed * dt))"

text \<open>
  The collision resolution of \<open>update\<close>: X first, against the current Z; then Z, against
  the X just decided.
\<close>

definition resolveAxes :: "RectXZ list \<Rightarrow> Vec3 \<Rightarrow> Vec3 \<Rightarrow> Vec3" where
  "resolveAxes cs pos move =
     (let nextX = vx pos + vx move;
          nextZ = vz pos;
          pos1 = (if \<not> collides cs nextX nextZ then pos\<lparr>vx := nextX\<rparr> else pos);
          nextZ1 = vz pos1 + vz move;
          pos2 = (if \<not> collides cs (vx pos1) nextZ1 then pos1\<lparr>vz := nextZ1\<rparr> else pos1)
      in pos2)"

definition update :: "real \<Rightarrow> controls \<Rightarrow> controls" where
  "update dt c =
     (if \<not> isLocked c then c
      else
        (let move = moveOf c dt;
             pos = resolveAxes (controls.colliders c) (cameraPosition c) move
         in c\<lparr>cameraPosition := clampBounds (controls.bounds c) pos\<rparr>))"

text \<open>What happens to the controls: the browser's events and the frame loop's calls.\<close>

datatype event =
    PointerLockChange bool
  | MouseMove real real
  | Update real

fun handle :: "controls \<Rightarrow> event \<Rightarrow> controls" where
  "handle c (PointerLockChange b) = pointerlockchange b c"
| "handle c (MouseMove dx dy) = mousemove dx dy c"
| "handle c (Update dt) = update dt c"

definition pitchLimit :: real where "pitchLimit = pi / 2 - 0.08"

definition withinBounds :: "Bounds \<Rightarrow> Vec3 \<Rightarrow> bool" where
  "withinBounds b v =
     (Bounds.minX b \<le> vx v \<and> vx v \<le> Bounds.maxX b \<and>
      Bounds.minY b \<le> vy v \<and> vy v \<le> Bounds.maxY b \<and>
      Bounds.minZ b \<le> vz v \<and> vz v \<le> Bounds.maxZ b)"

section \<open>The program's arithmetic\<close>

text \<open>
  The definitions so far compute in exact arithmetic. The program itself computes in IEEE
  doubles: every sum, difference, product and quotient is rounded, and so is every
  decimal literal. For statements about arbitrary runs, segments and positions the same
  functions follow once more, with the arithmetic as a parameter: each operation and each
  literal of the source goes through it, in the source's order. Comparisons,
  \<open>Math.floor\<close>, \<open>Math.abs\<close>, \<open>Math.min\<close>, \<open>Math.max\<close> and the unary minus are exact on
  doubles and stay as they are.
  A finite double is a real number, and the rounded operations of the doubles are one such
  arithmetic, so what holds for every arithmetic holds for the doubles, as long as no
  operation overflows or yields \<open>NaN\<close>; \<open>exact\<close> is the arithmetic without rounding.
\<close>

record arith =
  fadd :: "real \<Rightarrow> real \<Rightarrow> real"
  fsub :: "real \<Rightarrow> real \<Rightarrow> real"
  fmul :: "real \<Rightarrow> real \<Rightarrow> real"
  fdiv :: "real \<Rightarrow> real \<Rightarrow> real"
  flit :: "real \<Rightarrow> real"
  fsin :: "real \<Rightarrow> real"
  fcos :: "real \<Rightarrow> real"
  fsqrt :: "real \<Rightarrow> real"

definition exact :: arith where
  "exact = \<lparr>fadd = (+), fsub = (-), fmul = (*), fdiv = (/), flit = (\<lambda>x. x),
            fsin = sin, fcos = cos, fsqrt = sqrt\<rparr>"

subsection \<open>The wall builder\<close>

definition WALL_T_ar :: "arith \<Rightarrow> real" where "WALL_T_ar ar = flit ar 0.22"
definition DOOR_W_ar :: "arith \<Rightarrow> real" where "DOOR_W_ar ar = flit ar 3.0"
definition WALL_GAP_ar :: "arith \<Rightarrow> real" where "WALL_GAP_ar ar = flit ar 0.2"
definition CAP_MARGIN_ar :: "arith \<Rightarrow> real" where "CAP_MARGIN_ar ar = flit ar 0.80"
definition SPACING_ar :: "arith \<Rightarrow> real" where "SPACING_ar ar = flit ar 3.6"
definition FRAME_W_ar :: "arith \<Rightarrow> real" where "FRAME_W_ar ar = flit ar 1.8"
definition HALF_W_ar :: "arith \<Rightarrow> real" where
  "HALF_W_ar ar = fmul ar (FRAME_W_ar ar) (flit ar 0.5)"

function addWallX_ar ::
  "arith \<Rightarrow> real \<Rightarrow> real \<Rightarrow> real \<Rightarrow> normal \<Rightarrow> real option \<Rightarrow> walls \<Rightarrow> walls" where
  "addWallX_ar ar z x0 x1 normalToward (Some leaveDoorAt) w =
     (let d0 = fsub ar leaveDoorAt (fdiv ar (DOOR_W_ar ar) (flit ar 2));
          d1 = fadd ar leaveDoorAt (fdiv ar (DOOR_W_ar ar) (flit ar 2));
          w1 = (if d0 > fadd ar x0 (flit ar 0.01)
                then addWallX_ar ar z x0 d0 normalToward None w else w);
          w2 = (if x1 > fadd ar d1 (flit ar 0.01)
                then addWallX_ar ar z d1 x1 normalToward None w1 else w1)
      in w2)"
| "addWallX_ar ar z x0 x1 normalToward None w =
     (let len = fsub ar x1 x0;
          cx = fdiv ar (fadd ar x0 x1) (flit ar 2)
      in w\<lparr>walls.colliders := walls.colliders w @
             [\<lparr>minX = fsub ar cx (fdiv ar len (flit ar 2)),
               maxX = fadd ar cx (fdiv ar len (flit ar 2)),
               minZ = fadd ar z (if nval normalToward > 0 then flit ar 0 else - WALL_T_ar ar),
               maxZ = fadd ar z (if nval normalToward > 0 then WALL_T_ar ar else flit ar 0)\<rparr>],
           walls.segs := walls.segs w @
             [SegX (fadd ar z (fmul ar (nval normalToward) (fdiv ar (WALL_T_ar ar) (flit ar 2))))
                x0 x1 normalToward]\<rparr>)"
  by pat_completeness auto
termination
  by (relation "measure (\<lambda>(ar, z, x0, x1, normalToward, leaveDoorAt, w).
        case leaveDoorAt of Some c \<Rightarrow> 1 | None \<Rightarrow> 0)") auto

function addWallZ_ar ::
  "arith \<Rightarrow> real \<Rightarrow> real \<Rightarrow> real \<Rightarrow> normal \<Rightarrow> real option \<Rightarrow> walls \<Rightarrow> walls" where
  "addWallZ_ar ar x z0 z1 normalToward (Some leaveDoorAt) w =
     (let d0 = fsub ar leaveDoorAt (fdiv ar (DOOR_W_ar ar) (flit ar 2));
          d1 = fadd ar leaveDoorAt (fdiv ar (DOOR_W_ar ar) (flit ar 2));
          w1 = (if d0 > fadd ar z0 (flit ar 0.01)
                then addWallZ_ar ar x z0 d0 normalToward None w else w);
          w2 = (if z1 > fadd ar d1 (flit ar 0.01)
                then addWallZ_ar ar x d1 z1 normalToward None w1 else w1)
      in w2)"
| "addWallZ_ar ar x z0 z1 normalToward None w =
     (let len = fsub ar z1 z0;
          cz = fdiv ar (fadd ar z0 z1) (flit ar 2)
      in w\<lparr>walls.colliders := walls.colliders w @
             [\<lparr>minX = fadd ar x (if nval normalToward > 0 then flit ar 0 else - WALL_T_ar ar),
               maxX = fadd ar x (if nval normalToward > 0 then WALL_T_ar ar else flit ar 0),
               minZ = fsub ar cz (fdiv ar len (flit ar 2)),
               maxZ = fadd ar cz (fdiv ar len (flit ar 2))\<rparr>],
           walls.segs := walls.segs w @
             [SegZ (fadd ar x (fmul ar (nval normalToward) (fdiv ar (WALL_T_ar ar) (flit ar 2))))
                z0 z1 normalToward]\<rparr>)"
  by pat_completeness auto
termination
  by (relation "measure (\<lambda>(ar, x, z0, z1, normalToward, leaveDoorAt, w).
        case leaveDoorAt of Some c \<Rightarrow> 1 | None \<Rightarrow> 0)") auto

subsection \<open>Painting placement\<close>

definition hitWallX_ar :: "arith \<Rightarrow> WallSeg list \<Rightarrow> real \<Rightarrow> real \<Rightarrow> bool" where
  "hitWallX_ar ar sgs x z =
     list_ex (\<lambda>other. case other of
         SegZ ox oz0 oz1 onX \<Rightarrow>
           (let nearX = \<bar>fsub ar ox x\<bar> < fadd ar (HALF_W_ar ar) (flit ar 0.05);
                insideZ = (z \<ge> fsub ar oz0 (flit ar 0.05) \<and> z \<le> fadd ar oz1 (flit ar 0.05))
            in nearX \<and> insideZ)
       | SegX oz ox0 ox1 onZ \<Rightarrow> False) sgs"

definition hitWallZ_ar :: "arith \<Rightarrow> WallSeg list \<Rightarrow> real \<Rightarrow> real \<Rightarrow> bool" where
  "hitWallZ_ar ar sgs x z =
     list_ex (\<lambda>other. case other of
         SegX oz ox0 ox1 onZ \<Rightarrow>
           (let nearZ = \<bar>fsub ar oz z\<bar> < fadd ar (HALF_W_ar ar) (flit ar 0.05);
                insideX = (x \<ge> fsub ar ox0 (flit ar 0.05) \<and> x \<le> fadd ar ox1 (flit ar 0.05))
            in nearZ \<and> insideX)
       | SegZ ox oz0 oz1 onX \<Rightarrow> False) sgs"

text \<open>
  The loops once more. The counter \<open>i\<close> stays an integer: it starts at 0 and grows by 1,
  which is exact in doubles below \<open>2^53\<close>. The bound \<open>count\<close> is the program's number
  \<open>Math.floor(usable / SPACING) + 1\<close>.
\<close>

function hangOnSegX_loop_ar ::
  "arith \<Rightarrow> WallSeg list \<Rightarrow> string \<Rightarrow> ArtworkMeta list \<Rightarrow> real \<Rightarrow> normal \<Rightarrow> real \<Rightarrow> real \<Rightarrow> real \<Rightarrow>
   int \<Rightarrow> hang \<Rightarrow> hang" where
  "hangOnSegX_loop_ar ar sgs base frames segz nZ count startX endX i st =
     (if real_of_int i < count \<and> idx st < length frames then
        (let t = (if count = flit ar 1 then flit ar 0.5
                  else fdiv ar (real_of_int i) (fsub ar count (flit ar 1)));
             x = fadd ar startX (fmul ar t (fsub ar endX startX));
             z = fadd ar segz (if nval nZ > 0 then WALL_GAP_ar ar else - WALL_GAP_ar ar)
         in if hitWallX_ar ar sgs x z
            then hangOnSegX_loop_ar ar sgs base frames segz nZ count startX endX (i + 1) st
            else
              (let m = frames ! idx st;
                   f = \<lparr>meta = m, url = base @ ''/'' @ file m, frameW = FRAME_W_ar ar,
                        posX = x, posY = flit ar 1.6, posZ = z,
                        rotY = (if nval nZ > 0 then flit ar 0 else flit ar pi)\<rparr>
               in hangOnSegX_loop_ar ar sgs base frames segz nZ count startX endX (i + 1)
                    (st\<lparr>idx := idx st + 1, scene := scene st @ [f]\<rparr>)))
      else st)"
  by pat_completeness auto
termination
  by (relation "measure (\<lambda>(ar, sgs, base, frames, segz, nZ, count, startX, endX, i, st).
        nat (\<lceil>count\<rceil> - i))") (auto simp: less_ceiling_iff)

declare hangOnSegX_loop_ar.simps [simp del]

function hangOnSegZ_loop_ar ::
  "arith \<Rightarrow> WallSeg list \<Rightarrow> string \<Rightarrow> ArtworkMeta list \<Rightarrow> real \<Rightarrow> normal \<Rightarrow> real \<Rightarrow> real \<Rightarrow> real \<Rightarrow>
   int \<Rightarrow> hang \<Rightarrow> hang" where
  "hangOnSegZ_loop_ar ar sgs base frames segx nX count startZ endZ i st =
     (if real_of_int i < count \<and> idx st < length frames then
        (let t = (if count = flit ar 1 then flit ar 0.5
                  else fdiv ar (real_of_int i) (fsub ar count (flit ar 1)));
             z = fadd ar startZ (fmul ar t (fsub ar endZ startZ));
             x = fadd ar segx (if nval nX > 0 then WALL_GAP_ar ar else - WALL_GAP_ar ar)
         in if hitWallZ_ar ar sgs x z
            then hangOnSegZ_loop_ar ar sgs base frames segx nX count startZ endZ (i + 1) st
            else
              (let m = frames ! idx st;
                   f = \<lparr>meta = m, url = base @ ''/'' @ file m, frameW = FRAME_W_ar ar,
                        posX = x, posY = flit ar 1.6, posZ = z,
                        rotY = (if nval nX > 0 then fdiv ar (flit ar pi) (flit ar 2)
                                else fdiv ar (- flit ar pi) (flit ar 2))\<rparr>
               in hangOnSegZ_loop_ar ar sgs base frames segx nX count startZ endZ (i + 1)
                    (st\<lparr>idx := idx st + 1, scene := scene st @ [f]\<rparr>)))
      else st)"
  by pat_completeness auto
termination
  by (relation "measure (\<lambda>(ar, sgs, base, frames, segx, nX, count, startZ, endZ, i, st).
        nat (\<lceil>count\<rceil> - i))") (auto simp: less_ceiling_iff)

declare hangOnSegZ_loop_ar.simps [simp del]

definition hangOnSegX_ar ::
  "arith \<Rightarrow> WallSeg list \<Rightarrow> string \<Rightarrow> ArtworkMeta list \<Rightarrow> real \<Rightarrow> real \<Rightarrow> real \<Rightarrow> normal \<Rightarrow>
   hang \<Rightarrow> hang" where
  "hangOnSegX_ar ar sgs base frames segz segx0 segx1 nZ st =
     (let usable = fsub ar (fsub ar segx1 segx0)
                     (fmul ar (flit ar 2) (fadd ar (CAP_MARGIN_ar ar) (HALF_W_ar ar)))
      in if usable \<le> 0 then st
         else
           (let count = fadd ar (real_of_int \<lfloor>fdiv ar usable (SPACING_ar ar)\<rfloor>) (flit ar 1);
                startX = fadd ar (fadd ar segx0 (CAP_MARGIN_ar ar)) (HALF_W_ar ar);
                endX = fsub ar (fsub ar segx1 (CAP_MARGIN_ar ar)) (HALF_W_ar ar)
            in hangOnSegX_loop_ar ar sgs base frames segz nZ count startX endX 0 st))"

definition hangOnSegZ_ar ::
  "arith \<Rightarrow> WallSeg list \<Rightarrow> string \<Rightarrow> ArtworkMeta list \<Rightarrow> real \<Rightarrow> real \<Rightarrow> real \<Rightarrow> normal \<Rightarrow>
   hang \<Rightarrow> hang" where
  "hangOnSegZ_ar ar sgs base frames segx segz0 segz1 nX st =
     (let usable = fsub ar (fsub ar segz1 segz0)
                     (fmul ar (flit ar 2) (fadd ar (CAP_MARGIN_ar ar) (HALF_W_ar ar)))
      in if usable \<le> 0 then st
         else
           (let count = fadd ar (real_of_int \<lfloor>fdiv ar usable (SPACING_ar ar)\<rfloor>) (flit ar 1);
                startZ = fadd ar (fadd ar segz0 (CAP_MARGIN_ar ar)) (HALF_W_ar ar);
                endZ = fsub ar (fsub ar segz1 (CAP_MARGIN_ar ar)) (HALF_W_ar ar)
            in hangOnSegZ_loop_ar ar sgs base frames segx nX count startZ endZ 0 st))"

text \<open>
  A second description of the loops, to compare them with: the frame hung at a position,
  and the records handed in order to a list of frames still lacking their record.
\<close>

definition frameX_ar :: "arith \<Rightarrow> string \<Rightarrow> normal \<Rightarrow> real \<Rightarrow> real \<Rightarrow> ArtworkMeta \<Rightarrow> PlacedFrame" where
  "frameX_ar ar base n px pz m =
     \<lparr>meta = m, url = base @ ''/'' @ file m, frameW = FRAME_W_ar ar,
      posX = px, posY = flit ar 1.6, posZ = pz,
      rotY = (if nval n > 0 then flit ar 0 else flit ar pi)\<rparr>"

definition frameZ_ar :: "arith \<Rightarrow> string \<Rightarrow> normal \<Rightarrow> real \<Rightarrow> real \<Rightarrow> ArtworkMeta \<Rightarrow> PlacedFrame" where
  "frameZ_ar ar base n px pz m =
     \<lparr>meta = m, url = base @ ''/'' @ file m, frameW = FRAME_W_ar ar,
      posX = px, posY = flit ar 1.6, posZ = pz,
      rotY = (if nval n > 0 then fdiv ar (flit ar pi) (flit ar 2)
              else fdiv ar (- flit ar pi) (flit ar 2))\<rparr>"

fun placeEach :: "ArtworkMeta list \<Rightarrow> (ArtworkMeta \<Rightarrow> PlacedFrame) list \<Rightarrow> hang \<Rightarrow> hang" where
  "placeEach frames [] st = st"
| "placeEach frames (mk # mks) st =
     (if idx st < length frames
      then placeEach frames mks
             (st\<lparr>idx := idx st + 1, scene := scene st @ [mk (frames ! idx st)]\<rparr>)
      else st)"

subsection \<open>The controls\<close>

definition playerRadius_ar :: "arith \<Rightarrow> real" where "playerRadius_ar ar = flit ar 0.35"

fun collides_ar :: "arith \<Rightarrow> RectXZ list \<Rightarrow> real \<Rightarrow> real \<Rightarrow> bool" where
  "collides_ar ar [] x z = False"
| "collides_ar ar (r # rs) x z =
     (let hit = (x > fsub ar (RectXZ.minX r) (playerRadius_ar ar) \<and>
                 x < fadd ar (RectXZ.maxX r) (playerRadius_ar ar) \<and>
                 z > fsub ar (RectXZ.minZ r) (playerRadius_ar ar) \<and>
                 z < fadd ar (RectXZ.maxZ r) (playerRadius_ar ar))
      in if hit then True else collides_ar ar rs x z)"

text \<open>
  three.js: \<open>normalize\<close> is \<open>divideScalar(length() || 1)\<close>, \<open>divideScalar(s)\<close> multiplies by
  \<open>1 / s\<close>, and \<open>length\<close> is the square root of the sum of the squares.
\<close>

definition normalize_ar :: "arith \<Rightarrow> Vec3 \<Rightarrow> Vec3" where
  "normalize_ar ar v =
     (let len = fsqrt ar (fadd ar (fadd ar (fmul ar (vx v) (vx v)) (fmul ar (vy v) (vy v)))
                            (fmul ar (vz v) (vz v)));
          d = (if len = 0 then flit ar 1 else len);
          k = fdiv ar (flit ar 1) d
      in \<lparr>vx = fmul ar (vx v) k, vy = fmul ar (vy v) k, vz = fmul ar (vz v) k\<rparr>)"

definition crossVectors_ar :: "arith \<Rightarrow> Vec3 \<Rightarrow> Vec3 \<Rightarrow> Vec3" where
  "crossVectors_ar ar a b =
     \<lparr>vx = fsub ar (fmul ar (vy a) (vz b)) (fmul ar (vz a) (vy b)),
      vy = fsub ar (fmul ar (vz a) (vx b)) (fmul ar (vx a) (vz b)),
      vz = fsub ar (fmul ar (vx a) (vy b)) (fmul ar (vy a) (vx b))\<rparr>"

definition addScaledVector_ar :: "arith \<Rightarrow> Vec3 \<Rightarrow> Vec3 \<Rightarrow> real \<Rightarrow> Vec3" where
  "addScaledVector_ar ar v a k =
     \<lparr>vx = fadd ar (vx v) (fmul ar (vx a) k),
      vy = fadd ar (vy v) (fmul ar (vy a) k),
      vz = fadd ar (vz v) (fmul ar (vz a) k)\<rparr>"

definition moveOf_ar :: "arith \<Rightarrow> controls \<Rightarrow> real \<Rightarrow> Vec3" where
  "moveOf_ar ar c dt =
     (let speed = flit ar 3.0;
          fwd = (if ''w'' \<in> keys c \<or> ''arrowup'' \<in> keys c then flit ar 1
                 else if ''s'' \<in> keys c \<or> ''arrowdown'' \<in> keys c then - flit ar 1
                 else flit ar 0);
          str = (if ''d'' \<in> keys c \<or> ''arrowright'' \<in> keys c then flit ar 1
                 else if ''a'' \<in> keys c \<or> ''arrowleft'' \<in> keys c then - flit ar 1
                 else flit ar 0);
          forwardDir = normalize_ar ar
            \<lparr>vx = - fsin ar (yaw c), vy = flit ar 0, vz = - fcos ar (yaw c)\<rparr>;
          rightDir = normalize_ar ar
            (crossVectors_ar ar forwardDir \<lparr>vx = flit ar 0, vy = flit ar 1, vz = flit ar 0\<rparr>)
      in addScaledVector_ar ar
           (addScaledVector_ar ar \<lparr>vx = flit ar 0, vy = flit ar 0, vz = flit ar 0\<rparr> forwardDir
              (fmul ar (fmul ar fwd speed) dt))
           rightDir (fmul ar (fmul ar str speed) dt))"

definition resolveAxes_ar :: "arith \<Rightarrow> RectXZ list \<Rightarrow> Vec3 \<Rightarrow> Vec3 \<Rightarrow> Vec3" where
  "resolveAxes_ar ar cs pos move =
     (let nextX = fadd ar (vx pos) (vx move);
          nextZ = vz pos;
          pos1 = (if \<not> collides_ar ar cs nextX nextZ then pos\<lparr>vx := nextX\<rparr> else pos);
          nextZ1 = fadd ar (vz pos1) (vz move);
          pos2 = (if \<not> collides_ar ar cs (vx pos1) nextZ1 then pos1\<lparr>vz := nextZ1\<rparr> else pos1)
      in pos2)"

definition update_ar :: "arith \<Rightarrow> real \<Rightarrow> controls \<Rightarrow> controls" where
  "update_ar ar dt c =
     (if \<not> isLocked c then c
      else
        (let move = moveOf_ar ar c dt;
             pos = resolveAxes_ar ar (controls.colliders c) (cameraPosition c) move
         in c\<lparr>cameraPosition := clampBounds (controls.bounds c) pos\<rparr>))"

section \<open>Properties of the gallery as built\<close>

lemmas dims = H_wall_def WALL_T_def DOOR_W_def WALL_GAP_def CAP_MARGIN_def
  SPACING_def FRAME_W_def HALF_W_def

lemmas rooms = R_ATRIUM_def R_NORTH_def R_EAST_def R_WEST_def

lemmas extents = MIN_X_def MAX_X_def MIN_Z_def MAX_Z_def


lemma length_colliders_buildWalls: "length (walls.colliders buildWalls) = 30"
  by (simp add: buildWalls_def wall_calls_def no_walls_def rooms dims Let_def)

lemma doors_within_runs: "list_all doorWithinRun wall_calls"
  by (simp add: wall_calls_def rooms dims)

section \<open>Properties of the placement\<close>

lemma consume_exhausted: "length frames \<le> idx st \<Longrightarrow> consume base frames ss st = st"
  by (cases ss) auto

lemma consume_append:
  "consume base frames (a @ b) st = consume base frames b (consume base frames a st)"
  by (induction a arbitrary: st) (auto simp: consume_exhausted)

lemma consume_scene:
  "scene (consume base frames ss st) =
     scene st @ map2 (frameAt base) (drop (idx st) frames) ss"
proof (induction ss arbitrary: st)
  case Nil
  then show ?case by simp
next
  case (Cons s ss)
  show ?case
  proof (cases "idx st < length frames")
    case True
    then have "drop (idx st) frames = frames ! idx st # drop (Suc (idx st)) frames"
      by (simp add: Cons_nth_drop_Suc)
    with True Cons show ?thesis by simp
  next
    case False
    then show ?thesis by simp
  qed
qed

lemma consume_idx:
  "idx st \<le> length frames \<Longrightarrow>
   idx (consume base frames ss st) = idx st + min (length ss) (length frames - idx st)"
proof (induction ss arbitrary: st)
  case Nil
  then show ?case by simp
next
  case (Cons s ss)
  then show ?case by (cases "idx st < length frames") auto
qed

lemma upto_from: "i < count \<Longrightarrow> [i..count - 1] = i # [i + 1..count - 1]"
  by (simp add: upto_rec1)

lemma loopX_step:
  "i < count \<Longrightarrow> idx st < length frames \<Longrightarrow>
   hangOnSegX_loop sgs base frames segz nZ count startX endX i st =
   hangOnSegX_loop sgs base frames segz nZ count startX endX (i + 1)
     (if hitWallX sgs
           (startX + (if count = 1 then 0.5 else real_of_int i / real_of_int (count - 1)) *
              (endX - startX))
           (offWall segz nZ)
      then st
      else st\<lparr>idx := idx st + 1,
              scene := scene st @
                [frameAt base (frames ! idx st)
                   (SlotX nZ
                      (startX + (if count = 1 then 0.5
                                 else real_of_int i / real_of_int (count - 1)) *
                         (endX - startX))
                      (offWall segz nZ))]\<rparr>)"
  by (subst hangOnSegX_loop.simps) (simp add: Let_def offWall_def frameAt_def)

lemma loopZ_step:
  "i < count \<Longrightarrow> idx st < length frames \<Longrightarrow>
   hangOnSegZ_loop sgs base frames segx nX count startZ endZ i st =
   hangOnSegZ_loop sgs base frames segx nX count startZ endZ (i + 1)
     (if hitWallZ sgs (offWall segx nX)
           (startZ + (if count = 1 then 0.5 else real_of_int i / real_of_int (count - 1)) *
              (endZ - startZ))
      then st
      else st\<lparr>idx := idx st + 1,
              scene := scene st @
                [frameAt base (frames ! idx st)
                   (SlotZ nX (offWall segx nX)
                      (startZ + (if count = 1 then 0.5
                                 else real_of_int i / real_of_int (count - 1)) *
                         (endZ - startZ)))]\<rparr>)"
  by (subst hangOnSegZ_loop.simps) (simp add: Let_def offWall_def frameAt_def)

lemma loopX_done:
  assumes "\<not> (i < count \<and> idx st < length frames)"
  shows "hangOnSegX_loop sgs base frames segz nZ count startX endX i st = st"
  by (subst hangOnSegX_loop.simps) (rule if_not_P [OF assms])

lemma loopZ_done:
  assumes "\<not> (i < count \<and> idx st < length frames)"
  shows "hangOnSegZ_loop sgs base frames segx nX count startZ endZ i st = st"
  by (subst hangOnSegZ_loop.simps) (rule if_not_P [OF assms])

lemma loopX_consume:
  "hangOnSegX_loop sgs base frames segz nZ count startX endX i st =
   consume base frames
     (filter (\<lambda>s. \<not> slotHit sgs s)
        (map (\<lambda>j. SlotX nZ
                (startX + (if count = 1 then 0.5
                           else real_of_int j / real_of_int (count - 1)) * (endX - startX))
                (offWall segz nZ))
           [i..count - 1])) st"
proof (induction sgs base frames segz nZ count startX endX i st rule: hangOnSegX_loop.induct)
  case (1 sgs base frames segz nZ count startX endX i st)
  show ?case
  proof (cases "i < count")
    case False
    then show ?thesis by (simp add: loopX_done)
  next
    case lt: True
    show ?thesis
    proof (cases "idx st < length frames")
      case False
      then show ?thesis by (simp add: loopX_done consume_exhausted)
    next
      case True
      with lt 1 show ?thesis
        by (subst hangOnSegX_loop.simps) (simp add: upto_from Let_def offWall_def frameAt_def)
    qed
  qed
qed

lemma loopZ_consume:
  "hangOnSegZ_loop sgs base frames segx nX count startZ endZ i st =
   consume base frames
     (filter (\<lambda>s. \<not> slotHit sgs s)
        (map (\<lambda>j. SlotZ nX (offWall segx nX)
                (startZ + (if count = 1 then 0.5
                           else real_of_int j / real_of_int (count - 1)) * (endZ - startZ)))
           [i..count - 1])) st"
proof (induction sgs base frames segx nX count startZ endZ i st rule: hangOnSegZ_loop.induct)
  case (1 sgs base frames segx nX count startZ endZ i st)
  show ?case
  proof (cases "i < count")
    case False
    then show ?thesis by (simp add: loopZ_done)
  next
    case lt: True
    show ?thesis
    proof (cases "idx st < length frames")
      case False
      then show ?thesis by (simp add: loopZ_done consume_exhausted)
    next
      case True
      with lt 1 show ?thesis
        by (subst hangOnSegZ_loop.simps) (simp add: upto_from Let_def offWall_def frameAt_def)
    qed
  qed
qed

lemma slotAlong_code:
  "slotAlong lo hi count j =
     (lo + CAP_MARGIN + HALF_W) +
     (if count = 1 then 0.5 else real_of_int j / real_of_int (count - 1)) *
       ((hi - CAP_MARGIN - HALF_W) - (lo + CAP_MARGIN + HALF_W))"
proof (cases "count = 1")
  case True
  then show ?thesis by (simp add: slotAlong_def algebra_simps)
next
  case False
  then show ?thesis by (simp add: slotAlong_def)
qed

lemma hangOnSegX_accepted:
  "hangOnSegX sgs base frames segz lo hi n st =
     consume base frames (accepted sgs (SegX segz lo hi n)) st"
proof (cases "(hi - lo) - 2 * (CAP_MARGIN + HALF_W) \<le> 0")
  case True
  then show ?thesis
    by (simp add: hangOnSegX_def accepted_def slotCount_def)
next
  case False
  show ?thesis
    using False
    by (simp add: hangOnSegX_def accepted_def slotCount_def Let_def loopX_consume
        slotAlong_code)
qed

lemma hangOnSegZ_accepted:
  "hangOnSegZ sgs base frames segx lo hi n st =
     consume base frames (accepted sgs (SegZ segx lo hi n)) st"
proof (cases "(hi - lo) - 2 * (CAP_MARGIN + HALF_W) \<le> 0")
  case True
  then show ?thesis
    by (simp add: hangOnSegZ_def accepted_def slotCount_def)
next
  case False
  show ?thesis
    using False
    by (simp add: hangOnSegZ_def accepted_def slotCount_def Let_def loopZ_consume
        slotAlong_code)
qed

lemma hangAll_accepted:
  "hangAll sgs base frames rest st =
     consume base frames (concat (map (accepted sgs) rest)) st"
proof (induction rest arbitrary: st)
  case Nil
  then show ?case by simp
next
  case (Cons seg rest)
  show ?case
  proof (cases "length frames \<le> idx st")
    case True
    then show ?thesis by (simp add: consume_exhausted)
  next
    case False
    with Cons show ?thesis
      by (cases seg) (simp_all add: consume_append hangOnSegX_accepted hangOnSegZ_accepted)
  qed
qed

lemma placement_accepted:
  "placement opts =
     consume (imagesBase opts) (artworks opts) (allAccepted (segs buildWalls))
       \<lparr>idx = 0, scene = []\<rparr>"
  by (simp add: placement_def allAccepted_def hangAll_accepted)

lemma placement_scene:
  "scene (placement opts) =
     map2 (frameAt (imagesBase opts)) (artworks opts) (allAccepted (segs buildWalls))"
  by (simp add: placement_accepted consume_scene)

lemma placement_idx:
  "idx (placement opts) =
     min (length (allAccepted (segs buildWalls))) (length (artworks opts))"
  by (simp add: placement_accepted consume_idx)

lemma meta_frameAt: "meta (frameAt base m s) = m"
  by (cases s) (simp_all add: frameAt_def)

lemma map_meta_map2:
  "map meta (map2 (frameAt base) ms ss) = take (length ss) ms"
proof (induction ms arbitrary: ss)
  case Nil
  then show ?case by simp
next
  case (Cons m ms)
  then show ?case by (cases ss) (simp_all add: meta_frameAt)
qed

lemma segs_buildWalls:
  "segs buildWalls =
    [SegX (- 9.89) (- 16) (- 1.5) Plus1, SegX (- 9.89) 1.5 16 Plus1,
     SegX 9.89 (- 16) (- 1.5) Minus1, SegX 9.89 1.5 16 Minus1,
     SegZ (- 15.89) (- 10) (- 1.5) Plus1, SegZ (- 15.89) 1.5 10 Plus1,
     SegZ 15.89 (- 10) (- 1.5) Minus1, SegZ 15.89 1.5 10 Minus1,
     SegX (- 1.89) (- 14) 14 Plus1,
     SegZ (- 3.89) (- 8) 8 Plus1,
     SegX 10.11 (- 14) (- 1.5) Plus1, SegX 10.11 1.5 14 Plus1,
     SegX 23.89 (- 14) 14 Minus1,
     SegZ (- 13.89) 10 24 Plus1, SegZ 13.89 10 24 Minus1,
     SegX 14.11 (- 12) 8 Plus1,
     SegZ 7.89 14 22 Minus1,
     SegZ 16.11 (- 8) (- 1.5) Plus1, SegZ 16.11 1.5 8 Plus1,
     SegZ 29.89 (- 8) 8 Minus1,
     SegX (- 7.89) 16 30 Plus1, SegX 7.89 16 30 Minus1,
     SegX 0.11 18 28 Plus1,
     SegZ (- 16.11) (- 8) (- 1.5) Minus1, SegZ (- 16.11) 1.5 8 Minus1,
     SegZ (- 29.89) (- 8) 8 Plus1,
     SegX (- 7.89) (- 30) (- 16) Plus1, SegX 7.89 (- 30) (- 16) Minus1,
     SegZ (- 22.89) (- 6) 6 Plus1,
     SegX (- 1.89) (- 28) (- 18) Plus1]"
  by (simp add: buildWalls_def wall_calls_def no_walls_def rooms dims Let_def)

lemma accepted_count: "length (allAccepted (segs buildWalls)) = 90"
  unfolding segs_buildWalls
  by (simp add: allAccepted_def accepted_def slotCount_def slotAlong_def offWall_def
      hitWallX_def hitWallZ_def dims upto.simps)

lemma two_placed:
  "idx (placement \<lparr>imagesBase = ''images'', artworks = [art ''a.jpg'', art ''b.jpg'']\<rparr>) = 2"
  unfolding placement_def segs_buildWalls
  by (simp add: hangOnSegX_def hangOnSegZ_def hitWallX_def hitWallZ_def dims Let_def
      hangOnSegX_loop.simps hangOnSegZ_loop.simps)

text \<open>
  C2. Consumption order over a full run of \<open>buildGallery\<close>, for any artwork list: no more
  frames are placed than there are records; the frames placed carry, in order, the first
  records of the list (none reordered, reused or skipped), and the cursor ends at their
  number; the i-th record hangs on the i-th accepted slot. In the loops, a candidate that
  the corner check rejects leaves the cursor and the scene as they are, and once the
  records are used up no segment receives a frame.
\<close>

theorem placement_consumption_order:
  "(let placed = fst (buildGallery opts); arts = artworks opts
    in length placed \<le> length arts \<and>
       map meta placed = take (length placed) arts \<and>
       idx (placement opts) = length placed \<and>
       placed = map2 (frameAt (imagesBase opts)) arts (allAccepted (segs buildWalls))) \<and>
   (i < count \<and> idx st < length frames \<and>
    hitWallX sgs
      (startP + (if count = 1 then 0.5 else real_of_int i / real_of_int (count - 1)) *
         (endP - startP))
      (offWall plane n) \<longrightarrow>
    hangOnSegX_loop sgs base frames plane n count startP endP i st =
    hangOnSegX_loop sgs base frames plane n count startP endP (i + 1) st) \<and>
   (i < count \<and> idx st < length frames \<and>
    hitWallZ sgs (offWall plane n)
      (startP + (if count = 1 then 0.5 else real_of_int i / real_of_int (count - 1)) *
         (endP - startP)) \<longrightarrow>
    hangOnSegZ_loop sgs base frames plane n count startP endP i st =
    hangOnSegZ_loop sgs base frames plane n count startP endP (i + 1) st) \<and>
   (length frames \<le> idx st \<longrightarrow>
    hangOnSegX sgs base frames plane lo hi n st = st \<and>
    hangOnSegZ sgs base frames plane lo hi n st = st \<and>
    hangAll sgs base frames rest st = st)"
proof (intro conjI impI)
  have len: "length (fst (buildGallery opts)) =
      min (length (artworks opts)) (length (allAccepted (segs buildWalls)))"
    by (simp add: buildGallery_def placement_scene)
  have metas: "map meta (fst (buildGallery opts)) =
      take (length (allAccepted (segs buildWalls))) (artworks opts)"
    unfolding buildGallery_def placement_scene by (simp only: fst_conv map_meta_map2)
  have "take (length (allAccepted (segs buildWalls))) (artworks opts) =
      take (length (fst (buildGallery opts))) (artworks opts)"
    unfolding len by (simp add: min_def)
  with len metas
  show "let placed = fst (buildGallery opts); arts = artworks opts
    in length placed \<le> length arts \<and>
       map meta placed = take (length placed) arts \<and>
       idx (placement opts) = length placed \<and>
       placed = map2 (frameAt (imagesBase opts)) arts (allAccepted (segs buildWalls))"
    by (simp add: Let_def placement_idx min.commute) (simp add: buildGallery_def placement_scene)
next
  assume "i < count \<and> idx st < length frames \<and>
    hitWallX sgs
      (startP + (if count = 1 then 0.5 else real_of_int i / real_of_int (count - 1)) *
         (endP - startP))
      (offWall plane n)"
  then show "hangOnSegX_loop sgs base frames plane n count startP endP i st =
    hangOnSegX_loop sgs base frames plane n count startP endP (i + 1) st"
    by (simp add: loopX_step)
next
  assume "i < count \<and> idx st < length frames \<and>
    hitWallZ sgs (offWall plane n)
      (startP + (if count = 1 then 0.5 else real_of_int i / real_of_int (count - 1)) *
         (endP - startP))"
  then show "hangOnSegZ_loop sgs base frames plane n count startP endP i st =
    hangOnSegZ_loop sgs base frames plane n count startP endP (i + 1) st"
    by (simp add: loopZ_step)
next
  assume ex: "length frames \<le> idx st"
  then show "hangOnSegX sgs base frames plane lo hi n st = st"
    by (simp add: hangOnSegX_accepted consume_exhausted)
  from ex show "hangOnSegZ sgs base frames plane lo hi n st = st"
    by (simp add: hangOnSegZ_accepted consume_exhausted)
  from ex show "hangAll sgs base frames rest st = st"
    by (simp add: hangAll_accepted consume_exhausted)
qed

theorem placement_consumption_order_witness:
  "map meta (fst (buildGallery
      \<lparr>imagesBase = ''images'', artworks = [art ''a.jpg'', art ''b.jpg'']\<rparr>)) =
     [art ''a.jpg'', art ''b.jpg''] \<and>
   hangOnSegX_loop [SegZ 5 0 10 Minus1] ''images'' [art ''a.jpg''] 0 Plus1 1 4 6 0
      \<lparr>idx = 0, scene = []\<rparr> = \<lparr>idx = 0, scene = []\<rparr> \<and>
   hangOnSegZ_loop [SegX 5 0 10 Minus1] ''images'' [art ''a.jpg''] 0 Plus1 1 4 6 0
      \<lparr>idx = 0, scene = []\<rparr> = \<lparr>idx = 0, scene = []\<rparr> \<and>
   hangOnSegX [] ''images'' [art ''a.jpg''] 0 0 10 Plus1 \<lparr>idx = 1, scene = []\<rparr> =
      \<lparr>idx = 1, scene = []\<rparr>"
proof -
  note t1 = placement_consumption_order
    [where opts = "\<lparr>imagesBase = ''images'', artworks = [art ''a.jpg'', art ''b.jpg'']\<rparr>"]
  note t2 = placement_consumption_order
    [where i = 0 and count = 1 and st = "\<lparr>idx = 0, scene = []\<rparr>" and frames = "[art ''a.jpg'']"
      and sgs = "[SegZ 5 0 10 Minus1]" and startP = 4 and endP = 6 and plane = 0 and n = Plus1
      and base = "''images''"]
  note t3 = placement_consumption_order
    [where i = 0 and count = 1 and st = "\<lparr>idx = 0, scene = []\<rparr>" and frames = "[art ''a.jpg'']"
      and sgs = "[SegX 5 0 10 Minus1]" and startP = 4 and endP = 6 and plane = 0 and n = Plus1
      and base = "''images''"]
  note t4 = placement_consumption_order
    [where st = "\<lparr>idx = 1, scene = []\<rparr>" and frames = "[art ''a.jpg'']"
      and sgs = "[]" and plane = 0 and lo = 0 and hi = 10 and n = Plus1 and base = "''images''"]
  have a: "map meta (fst (buildGallery
      \<lparr>imagesBase = ''images'', artworks = [art ''a.jpg'', art ''b.jpg'']\<rparr>)) =
     [art ''a.jpg'', art ''b.jpg'']"
  proof -
    from t1 have m: "map meta (fst (buildGallery
          \<lparr>imagesBase = ''images'', artworks = [art ''a.jpg'', art ''b.jpg'']\<rparr>)) =
        take (length (fst (buildGallery
          \<lparr>imagesBase = ''images'', artworks = [art ''a.jpg'', art ''b.jpg'']\<rparr>)))
          (artworks \<lparr>imagesBase = ''images'', artworks = [art ''a.jpg'', art ''b.jpg'']\<rparr>)"
      and l: "idx (placement
          \<lparr>imagesBase = ''images'', artworks = [art ''a.jpg'', art ''b.jpg'']\<rparr>) =
        length (fst (buildGallery
          \<lparr>imagesBase = ''images'', artworks = [art ''a.jpg'', art ''b.jpg'']\<rparr>))"
      unfolding Let_def by blast+
    from l two_placed have "length (fst (buildGallery
          \<lparr>imagesBase = ''images'', artworks = [art ''a.jpg'', art ''b.jpg'']\<rparr>)) = 2"
      by simp
    with m show ?thesis by simp
  qed
  have hx: "hitWallX [SegZ 5 0 10 Minus1] (4 + 0.5 * (6 - 4)) (offWall 0 Plus1)"
    by (simp add: hitWallX_def offWall_def dims)
  have hz: "hitWallZ [SegX 5 0 10 Minus1] (offWall 0 Plus1) (4 + 0.5 * (6 - 4))"
    by (simp add: hitWallZ_def offWall_def dims)
  have b: "hangOnSegX_loop [SegZ 5 0 10 Minus1] ''images'' [art ''a.jpg''] 0 Plus1 1 4 6 0
      \<lparr>idx = 0, scene = []\<rparr> = \<lparr>idx = 0, scene = []\<rparr>"
    using t2 hx by (simp add: loopX_done)
  have c: "hangOnSegZ_loop [SegX 5 0 10 Minus1] ''images'' [art ''a.jpg''] 0 Plus1 1 4 6 0
      \<lparr>idx = 0, scene = []\<rparr> = \<lparr>idx = 0, scene = []\<rparr>"
    using t3 hz by (simp add: loopZ_done)
  have d: "hangOnSegX [] ''images'' [art ''a.jpg''] 0 0 10 Plus1 \<lparr>idx = 1, scene = []\<rparr> =
      \<lparr>idx = 1, scene = []\<rparr>"
    using t4 by simp
  from a b c d show ?thesis by blast
qed

lemma zip_take_left: "length ss \<le> k \<Longrightarrow> zip (take k ms) ss = zip ms ss"
proof (induction ms arbitrary: ss k)
  case Nil
  then show ?case by simp
next
  case (Cons m ms)
  show ?case
  proof (cases ss)
    case Nil
    then show ?thesis by simp
  next
    case (Cons s ss')
    with Cons.prems obtain k' where "k = Suc k'" and "length ss' \<le> k'"
      by (cases k) auto
    with Cons.IH [of ss' k'] Cons show ?thesis by simp
  qed
qed

lemma scene_depends_on_prefix:
  assumes "imagesBase opts = imagesBase opts'"
    and "take (length (allAccepted (segs buildWalls))) (artworks opts) =
         take (length (allAccepted (segs buildWalls))) (artworks opts')"
  shows "buildGallery opts = buildGallery opts'"
proof -
  have "zip (artworks opts) (allAccepted (segs buildWalls)) =
        zip (take (length (allAccepted (segs buildWalls))) (artworks opts))
          (allAccepted (segs buildWalls))"
    by (simp add: zip_take_left)
  also have "\<dots> = zip (artworks opts') (allAccepted (segs buildWalls))"
    unfolding assms(2) by (simp add: zip_take_left)
  finally show ?thesis
    using assms(1) by (simp add: buildGallery_def placement_scene)
qed

text \<open>
  C6, as the code has it. The layout has 90 accepted slots. A run adds
  \<open>min n 90\<close> frames to the scene for \<open>n\<close> records and leaves \<open>n - 90\<close> records unplaced;
  it reports no count: what it adds to the scene and what it returns are the same for any
  two artwork lists that agree on their first 90 records.
\<close>

theorem surplus_left_unplaced:
  "length (allAccepted (segs buildWalls)) = 90 \<and>
   length (fst (buildGallery opts)) = min (length (artworks opts)) 90 \<and>
   unplaced opts = length (artworks opts) - 90 \<and>
   (imagesBase opts = imagesBase opts' \<and>
    take 90 (artworks opts) = take 90 (artworks opts') \<longrightarrow>
    buildGallery opts = buildGallery opts')"
  using scene_depends_on_prefix [of opts opts']
  by (simp add: accepted_count unplaced_def placement_idx buildGallery_def placement_scene)

theorem surplus_left_unplaced_witness:
  "unplaced \<lparr>imagesBase = ''images'', artworks = replicate 91 (art ''a.jpg'')\<rparr> = 1 \<and>
   length (fst (buildGallery
      \<lparr>imagesBase = ''images'', artworks = replicate 91 (art ''a.jpg'')\<rparr>)) = 90 \<and>
   buildGallery \<lparr>imagesBase = ''images'', artworks = replicate 91 (art ''a.jpg'')\<rparr> =
   buildGallery \<lparr>imagesBase = ''images'',
      artworks = replicate 90 (art ''a.jpg'') @ [art ''b.jpg'', art ''c.jpg'']\<rparr>"
proof -
  note t = surplus_left_unplaced
    [where opts = "\<lparr>imagesBase = ''images'', artworks = replicate 91 (art ''a.jpg'')\<rparr>"
      and opts' = "\<lparr>imagesBase = ''images'',
        artworks = replicate 90 (art ''a.jpg'') @ [art ''b.jpg'', art ''c.jpg'']\<rparr>"]
  have h: "imagesBase \<lparr>imagesBase = ''images'', artworks = replicate 91 (art ''a.jpg'')\<rparr> =
      imagesBase \<lparr>imagesBase = ''images'',
        artworks = replicate 90 (art ''a.jpg'') @ [art ''b.jpg'', art ''c.jpg'']\<rparr> \<and>
    take 90 (artworks \<lparr>imagesBase = ''images'', artworks = replicate 91 (art ''a.jpg'')\<rparr>) =
    take 90 (artworks \<lparr>imagesBase = ''images'',
        artworks = replicate 90 (art ''a.jpg'') @ [art ''b.jpg'', art ''c.jpg'']\<rparr>)"
    by simp
  from t have "unplaced \<lparr>imagesBase = ''images'', artworks = replicate 91 (art ''a.jpg'')\<rparr> =
      length (artworks \<lparr>imagesBase = ''images'', artworks = replicate 91 (art ''a.jpg'')\<rparr>) - 90"
    by blast
  then have a: "unplaced \<lparr>imagesBase = ''images'', artworks = replicate 91 (art ''a.jpg'')\<rparr> = 1"
    by simp
  from t have "length (fst (buildGallery
      \<lparr>imagesBase = ''images'', artworks = replicate 91 (art ''a.jpg'')\<rparr>)) =
      min (length (artworks
        \<lparr>imagesBase = ''images'', artworks = replicate 91 (art ''a.jpg'')\<rparr>)) 90"
    by blast
  then have b: "length (fst (buildGallery
      \<lparr>imagesBase = ''images'', artworks = replicate 91 (art ''a.jpg'')\<rparr>)) = 90"
    by simp
  from t h have c: "buildGallery
      \<lparr>imagesBase = ''images'', artworks = replicate 91 (art ''a.jpg'')\<rparr> =
    buildGallery \<lparr>imagesBase = ''images'',
      artworks = replicate 90 (art ''a.jpg'') @ [art ''b.jpg'', art ''c.jpg'']\<rparr>"
    by blast
  from a b c show ?thesis by blast
qed

text \<open>
  C6 as stated fails: a list of 91 records and a list of 95 records, equal on the first
  90, leave 1 and 5 records unplaced, and the run's whole output (the frames added to the
  scene and the returned object) is the same for both.
\<close>

theorem surplus_count_not_surfaced:
  "unplaced \<lparr>imagesBase = ''images'', artworks = replicate 91 (art ''a.jpg'')\<rparr> = 1 \<and>
   unplaced \<lparr>imagesBase = ''images'', artworks = replicate 95 (art ''a.jpg'')\<rparr> = 5 \<and>
   buildGallery \<lparr>imagesBase = ''images'', artworks = replicate 91 (art ''a.jpg'')\<rparr> =
   buildGallery \<lparr>imagesBase = ''images'', artworks = replicate 95 (art ''a.jpg'')\<rparr>"
proof -
  have "buildGallery \<lparr>imagesBase = ''images'', artworks = replicate 91 (art ''a.jpg'')\<rparr> =
      buildGallery \<lparr>imagesBase = ''images'', artworks = replicate 95 (art ''a.jpg'')\<rparr>"
    by (rule scene_depends_on_prefix) (simp_all add: accepted_count)
  then show ?thesis
    by (simp add: unplaced_def placement_idx accepted_count)
qed

lemma gallery_returned:
  "snd (buildGallery opts) =
     \<lparr>suggestedSpawn = \<lparr>vx = - 6, vy = 1.6, vz = 0\<rparr>,
      bounds = \<lparr>Bounds.minX = - 29.4, Bounds.maxX = 29.4, Bounds.minY = 0.9,
                Bounds.maxY = 3.2, Bounds.minZ = - 9.4, Bounds.maxZ = 23.4\<rparr>,
      colliders = walls.colliders buildWalls\<rparr>"
  by (simp add: buildGallery_def rooms extents dims)

text \<open>
  C9. Layout determinism: the builder has no input but its constants, so every run yields
  the same layout, whatever the artwork list and the image base: the same returned
  object (spawn point, bounds, colliders), these fixed 30 segments, and as many colliders.
\<close>

theorem layout_deterministic:
  "snd (buildGallery opts) = snd (buildGallery opts') \<and>
   suggestedSpawn (snd (buildGallery opts)) = \<lparr>vx = - 6, vy = 1.6, vz = 0\<rparr> \<and>
   gallery.bounds (snd (buildGallery opts)) =
     \<lparr>Bounds.minX = - 29.4, Bounds.maxX = 29.4, Bounds.minY = 0.9,
      Bounds.maxY = 3.2, Bounds.minZ = - 9.4, Bounds.maxZ = 23.4\<rparr> \<and>
   gallery.colliders (snd (buildGallery opts)) = walls.colliders buildWalls \<and>
   length (walls.colliders buildWalls) = 30 \<and>
   segs buildWalls =
    [SegX (- 9.89) (- 16) (- 1.5) Plus1, SegX (- 9.89) 1.5 16 Plus1,
     SegX 9.89 (- 16) (- 1.5) Minus1, SegX 9.89 1.5 16 Minus1,
     SegZ (- 15.89) (- 10) (- 1.5) Plus1, SegZ (- 15.89) 1.5 10 Plus1,
     SegZ 15.89 (- 10) (- 1.5) Minus1, SegZ 15.89 1.5 10 Minus1,
     SegX (- 1.89) (- 14) 14 Plus1,
     SegZ (- 3.89) (- 8) 8 Plus1,
     SegX 10.11 (- 14) (- 1.5) Plus1, SegX 10.11 1.5 14 Plus1,
     SegX 23.89 (- 14) 14 Minus1,
     SegZ (- 13.89) 10 24 Plus1, SegZ 13.89 10 24 Minus1,
     SegX 14.11 (- 12) 8 Plus1,
     SegZ 7.89 14 22 Minus1,
     SegZ 16.11 (- 8) (- 1.5) Plus1, SegZ 16.11 1.5 8 Plus1,
     SegZ 29.89 (- 8) 8 Minus1,
     SegX (- 7.89) 16 30 Plus1, SegX 7.89 16 30 Minus1,
     SegX 0.11 18 28 Plus1,
     SegZ (- 16.11) (- 8) (- 1.5) Minus1, SegZ (- 16.11) 1.5 8 Minus1,
     SegZ (- 29.89) (- 8) 8 Plus1,
     SegX (- 7.89) (- 30) (- 16) Plus1, SegX 7.89 (- 30) (- 16) Minus1,
     SegZ (- 22.89) (- 6) 6 Plus1,
     SegX (- 1.89) (- 28) (- 18) Plus1]"
  by (simp add: gallery_returned segs_buildWalls length_colliders_buildWalls)

theorem layout_deterministic_witness:
  "snd (buildGallery \<lparr>imagesBase = ''images'', artworks = []\<rparr>) =
   snd (buildGallery \<lparr>imagesBase = ''other'', artworks = [art ''a.jpg'', art ''b.jpg'']\<rparr>) \<and>
   length (gallery.colliders (snd (buildGallery \<lparr>imagesBase = ''images'', artworks = []\<rparr>))) = 30"
proof -
  note t = layout_deterministic
    [where opts = "\<lparr>imagesBase = ''images'', artworks = []\<rparr>"
      and opts' = "\<lparr>imagesBase = ''other'', artworks = [art ''a.jpg'', art ''b.jpg'']\<rparr>"]
  from t have a: "snd (buildGallery \<lparr>imagesBase = ''images'', artworks = []\<rparr>) =
      snd (buildGallery \<lparr>imagesBase = ''other'', artworks = [art ''a.jpg'', art ''b.jpg'']\<rparr>)"
    by blast
  from t have "gallery.colliders (snd (buildGallery \<lparr>imagesBase = ''images'', artworks = []\<rparr>)) =
      walls.colliders buildWalls" and "length (walls.colliders buildWalls) = 30"
    by blast+
  then have b: "length (gallery.colliders
      (snd (buildGallery \<lparr>imagesBase = ''images'', artworks = []\<rparr>))) = 30"
    by simp
  from a b show ?thesis by blast
qed

section \<open>Properties of the controls\<close>

lemma pitchLimit_pos: "0 < pitchLimit"
  using pi_ge_two by (simp add: pitchLimit_def)

lemma mousemove_locked_pitch:
  assumes "isLocked c"
  shows "- pitchLimit \<le> pitch (mousemove dx dy c) \<and> pitch (mousemove dx dy c) \<le> pitchLimit"
  using assms pitchLimit_pos by (simp add: mousemove_def Let_def pitchLimit_def)

lemma mousemove_unlocked: "\<not> isLocked c \<Longrightarrow> mousemove dx dy c = c"
  by (simp add: mousemove_def)

lemma handle_pitch:
  assumes "- pitchLimit \<le> pitch c \<and> pitch c \<le> pitchLimit"
  shows "- pitchLimit \<le> pitch (handle c e) \<and> pitch (handle c e) \<le> pitchLimit"
proof (cases e)
  case (PointerLockChange b)
  with assms show ?thesis by (simp add: pointerlockchange_def)
next
  case (MouseMove dx dy)
  with assms show ?thesis
    by (cases "isLocked c") (simp_all add: mousemove_locked_pitch mousemove_unlocked)
next
  case (Update dt)
  with assms show ?thesis by (simp add: update_def Let_def)
qed

lemma foldl_handle_pitch:
  assumes "- pitchLimit \<le> pitch c \<and> pitch c \<le> pitchLimit"
  shows "- pitchLimit \<le> pitch (foldl handle c evs) \<and> pitch (foldl handle c evs) \<le> pitchLimit"
  using assms
proof (induction evs arbitrary: c)
  case Nil
  then show ?case by simp
next
  case (Cons e evs)
  from Cons.prems have "- pitchLimit \<le> pitch (handle c e) \<and> pitch (handle c e) \<le> pitchLimit"
    by (rule handle_pitch)
  then show ?case using Cons.IH by simp
qed

text \<open>
  C8. Pitch invariant: a pointer move under pointer lock leaves the pitch within
  \<open>[-(pi/2 - 0.08), pi/2 - 0.08]\<close>; without the lock the move changes nothing; so after
  any sequence of lock changes, pointer moves and frame updates on freshly created
  controls, the pitch lies within these limits.
\<close>

theorem pitch_invariant:
  "pitchLimit = pi / 2 - 0.08 \<and>
   (isLocked c \<longrightarrow>
      - pitchLimit \<le> pitch (mousemove dx dy c) \<and> pitch (mousemove dx dy c) \<le> pitchLimit) \<and>
   (\<not> isLocked c \<longrightarrow> mousemove dx dy c = c) \<and>
   - pitchLimit \<le> pitch (foldl handle (createControls rot pos b cs) evs) \<and>
   pitch (foldl handle (createControls rot pos b cs) evs) \<le> pitchLimit"
proof -
  have "- pitchLimit \<le> pitch (createControls rot pos b cs) \<and>
      pitch (createControls rot pos b cs) \<le> pitchLimit"
    using pitchLimit_pos by (simp add: createControls_def)
  from foldl_handle_pitch [OF this, of evs] show ?thesis
    by (simp add: pitchLimit_def [symmetric] mousemove_locked_pitch mousemove_unlocked)
      (simp add: pitchLimit_def)
qed

theorem pitch_invariant_witness:
  "pitch (foldl handle
      (createControls \<lparr>vx = 0, vy = 0, vz = 0\<rparr> \<lparr>vx = - 6, vy = 1.6, vz = 0\<rparr> None [])
      [PointerLockChange True, MouseMove 3 (- 1000)]) = pi / 2 - 0.08 \<and>
   pitch (foldl handle
      (createControls \<lparr>vx = 0, vy = 0, vz = 0\<rparr> \<lparr>vx = - 6, vy = 1.6, vz = 0\<rparr> None [])
      [PointerLockChange True, MouseMove 3 (- 1000)]) \<le> pitchLimit \<and>
   - pitchLimit \<le> pitch (foldl handle
      (createControls \<lparr>vx = 0, vy = 0, vz = 0\<rparr> \<lparr>vx = - 6, vy = 1.6, vz = 0\<rparr> None [])
      [PointerLockChange True, MouseMove 3 (- 1000)])"
proof -
  note t = pitch_invariant [where rot = "\<lparr>vx = 0, vy = 0, vz = 0\<rparr>"
      and pos = "\<lparr>vx = - 6, vy = 1.6, vz = 0\<rparr>" and b = None and cs = "[]"
      and evs = "[PointerLockChange True, MouseMove 3 (- 1000)]"]
  have "pi / 2 - 0.08 \<le> (2.5 :: real)"
    using pi_less_4 by simp
  moreover have "- (pi / 2 - 0.08) \<le> pi / 2 - 0.08"
    using pi_ge_two by simp
  ultimately have a: "pitch (foldl handle
      (createControls \<lparr>vx = 0, vy = 0, vz = 0\<rparr> \<lparr>vx = - 6, vy = 1.6, vz = 0\<rparr> None [])
      [PointerLockChange True, MouseMove 3 (- 1000)]) = pi / 2 - 0.08"
    by (simp add: createControls_def pointerlockchange_def mousemove_def sensitivity_def
        Let_def min_def max_def)
  from t a show ?thesis by blast
qed

section \<open>Properties in the program's arithmetic\<close>

subsection \<open>The wall builder\<close>

lemmas dims_ar = WALL_T_ar_def DOOR_W_ar_def WALL_GAP_ar_def CAP_MARGIN_ar_def
  SPACING_ar_def FRAME_W_ar_def HALF_W_ar_def playerRadius_ar_def

lemma exact_ops:
  "fadd exact = (+)" "fsub exact = (-)" "fmul exact = (*)" "fdiv exact = (/)"
  "flit exact = (\<lambda>x. x)" "fsin exact = sin" "fcos exact = cos" "fsqrt exact = sqrt"
  by (simp_all add: exact_def)

lemma segs_addWallX_ar_plain:
  "segs (addWallX_ar ar z lo hi n None w) =
     segs w @ [SegX (fadd ar z (fmul ar (nval n) (fdiv ar (WALL_T_ar ar) (flit ar 2)))) lo hi n]"
  by (simp add: Let_def)

lemma segs_addWallZ_ar_plain:
  "segs (addWallZ_ar ar x lo hi n None w) =
     segs w @ [SegZ (fadd ar x (fmul ar (nval n) (fdiv ar (WALL_T_ar ar) (flit ar 2)))) lo hi n]"
  by (simp add: Let_def)

lemma segs_addWallX_ar_door:
  "segs (addWallX_ar ar z lo hi n (Some c) w) =
     segs w @
     (if fsub ar c (fdiv ar (DOOR_W_ar ar) (flit ar 2)) > fadd ar lo (flit ar 0.01)
      then [SegX (fadd ar z (fmul ar (nval n) (fdiv ar (WALL_T_ar ar) (flit ar 2))))
              lo (fsub ar c (fdiv ar (DOOR_W_ar ar) (flit ar 2))) n]
      else []) @
     (if hi > fadd ar (fadd ar c (fdiv ar (DOOR_W_ar ar) (flit ar 2))) (flit ar 0.01)
      then [SegX (fadd ar z (fmul ar (nval n) (fdiv ar (WALL_T_ar ar) (flit ar 2))))
              (fadd ar c (fdiv ar (DOOR_W_ar ar) (flit ar 2))) hi n]
      else [])"
  by (simp add: Let_def segs_addWallX_ar_plain del: addWallX_ar.simps(2))

lemma segs_addWallZ_ar_door:
  "segs (addWallZ_ar ar x lo hi n (Some c) w) =
     segs w @
     (if fsub ar c (fdiv ar (DOOR_W_ar ar) (flit ar 2)) > fadd ar lo (flit ar 0.01)
      then [SegZ (fadd ar x (fmul ar (nval n) (fdiv ar (WALL_T_ar ar) (flit ar 2))))
              lo (fsub ar c (fdiv ar (DOOR_W_ar ar) (flit ar 2))) n]
      else []) @
     (if hi > fadd ar (fadd ar c (fdiv ar (DOOR_W_ar ar) (flit ar 2))) (flit ar 0.01)
      then [SegZ (fadd ar x (fmul ar (nval n) (fdiv ar (WALL_T_ar ar) (flit ar 2))))
              (fadd ar c (fdiv ar (DOOR_W_ar ar) (flit ar 2))) hi n]
      else [])"
  by (simp add: Let_def segs_addWallZ_ar_plain del: addWallZ_ar.simps(2))

lemma doorway_cut_X:
  "(let d0 = fsub ar c (fdiv ar (DOOR_W_ar ar) (flit ar 2));
        d1 = fadd ar c (fdiv ar (DOOR_W_ar ar) (flit ar 2));
        plane = fadd ar z (fmul ar (nval n) (fdiv ar (WALL_T_ar ar) (flit ar 2)));
        w' = addWallX_ar ar z lo hi n (Some c) w;
        E = drop (length (segs w)) (segs w')
    in take (length (segs w)) (segs w') = segs w \<and>
       E = (if d0 > fadd ar lo (flit ar 0.01) then [SegX plane lo d0 n] else []) @
           (if hi > fadd ar d1 (flit ar 0.01) then [SegX plane d1 hi n] else []) \<and>
       (\<forall>p. d0 < p \<and> p < d1 \<longrightarrow> \<not> list_ex (onSegX p) E) \<and>
       (lo \<le> d0 \<and> d0 \<le> d1 \<and> d1 \<le> hi \<longrightarrow>
          (\<forall>p. list_ex (onSegX p) E \<or> (d0 \<le> p \<and> p \<le> d1) \<longrightarrow> lo \<le> p \<and> p \<le> hi)) \<and>
       (\<forall>p. lo \<le> p \<and> p \<le> hi \<longrightarrow>
          list_ex (onSegX p) E \<or> (d0 \<le> p \<and> p \<le> d1) \<or>
          (p < d0 \<and> d0 \<le> fadd ar lo (flit ar 0.01)) \<or>
          (d1 < p \<and> hi \<le> fadd ar d1 (flit ar 0.01))) \<and>
       (d0 \<le> fadd ar lo (flit ar 0.01) \<and> hi \<le> fadd ar d1 (flit ar 0.01) \<longrightarrow> E = []))"
  unfolding Let_def segs_addWallX_ar_door
  by (auto simp: onSegX_def)

lemma doorway_cut_Z:
  "(let d0 = fsub ar c (fdiv ar (DOOR_W_ar ar) (flit ar 2));
        d1 = fadd ar c (fdiv ar (DOOR_W_ar ar) (flit ar 2));
        plane = fadd ar x (fmul ar (nval n) (fdiv ar (WALL_T_ar ar) (flit ar 2)));
        w' = addWallZ_ar ar x lo hi n (Some c) w;
        E = drop (length (segs w)) (segs w')
    in take (length (segs w)) (segs w') = segs w \<and>
       E = (if d0 > fadd ar lo (flit ar 0.01) then [SegZ plane lo d0 n] else []) @
           (if hi > fadd ar d1 (flit ar 0.01) then [SegZ plane d1 hi n] else []) \<and>
       (\<forall>p. d0 < p \<and> p < d1 \<longrightarrow> \<not> list_ex (onSegZ p) E) \<and>
       (lo \<le> d0 \<and> d0 \<le> d1 \<and> d1 \<le> hi \<longrightarrow>
          (\<forall>p. list_ex (onSegZ p) E \<or> (d0 \<le> p \<and> p \<le> d1) \<longrightarrow> lo \<le> p \<and> p \<le> hi)) \<and>
       (\<forall>p. lo \<le> p \<and> p \<le> hi \<longrightarrow>
          list_ex (onSegZ p) E \<or> (d0 \<le> p \<and> p \<le> d1) \<or>
          (p < d0 \<and> d0 \<le> fadd ar lo (flit ar 0.01)) \<or>
          (d1 < p \<and> hi \<le> fadd ar d1 (flit ar 0.01))) \<and>
       (d0 \<le> fadd ar lo (flit ar 0.01) \<and> hi \<le> fadd ar d1 (flit ar 0.01) \<longrightarrow> E = []))"
  unfolding Let_def segs_addWallZ_ar_door
  by (auto simp: onSegZ_def)

text \<open>
  C1, as the code has it, for \<open>addWallX\<close> and \<open>addWallZ\<close> alike and in the program's
  arithmetic. With a doorway at \<open>c\<close> the builder computes the doorway edges \<open>d0 = c - D/2\<close>
  and \<open>d1 = c + D/2\<close> and appends, to the segments it already has, the left sub-wall
  \<open>[lo, d0]\<close> exactly when \<open>d0 > lo + 0.01\<close> as it computes that sum, then the right
  sub-wall \<open>[d1, hi]\<close> exactly when \<open>hi > d1 + 0.01\<close>, and nothing else. No emitted segment
  meets the open interval \<open>(d0, d1)\<close>. Every point of the run lies on an emitted segment,
  in the gap, or in a remainder that failed the test. If both remainders fail the test,
  nothing is emitted. The emitted segments and the gap lie within the run when the
  doorway does, \<open>lo \<le> d0 \<le> d1 \<le> hi\<close>; every doorway call of the builder has its doorway
  within its run.
\<close>

theorem doorway_cutting:
  "(let d0 = fsub ar c (fdiv ar (DOOR_W_ar ar) (flit ar 2));
        d1 = fadd ar c (fdiv ar (DOOR_W_ar ar) (flit ar 2));
        plane = fadd ar z (fmul ar (nval n) (fdiv ar (WALL_T_ar ar) (flit ar 2)));
        w' = addWallX_ar ar z lo hi n (Some c) w;
        E = drop (length (segs w)) (segs w')
    in take (length (segs w)) (segs w') = segs w \<and>
       E = (if d0 > fadd ar lo (flit ar 0.01) then [SegX plane lo d0 n] else []) @
           (if hi > fadd ar d1 (flit ar 0.01) then [SegX plane d1 hi n] else []) \<and>
       (\<forall>p. d0 < p \<and> p < d1 \<longrightarrow> \<not> list_ex (onSegX p) E) \<and>
       (lo \<le> d0 \<and> d0 \<le> d1 \<and> d1 \<le> hi \<longrightarrow>
          (\<forall>p. list_ex (onSegX p) E \<or> (d0 \<le> p \<and> p \<le> d1) \<longrightarrow> lo \<le> p \<and> p \<le> hi)) \<and>
       (\<forall>p. lo \<le> p \<and> p \<le> hi \<longrightarrow>
          list_ex (onSegX p) E \<or> (d0 \<le> p \<and> p \<le> d1) \<or>
          (p < d0 \<and> d0 \<le> fadd ar lo (flit ar 0.01)) \<or>
          (d1 < p \<and> hi \<le> fadd ar d1 (flit ar 0.01))) \<and>
       (d0 \<le> fadd ar lo (flit ar 0.01) \<and> hi \<le> fadd ar d1 (flit ar 0.01) \<longrightarrow> E = [])) \<and>
   (let d0 = fsub ar c (fdiv ar (DOOR_W_ar ar) (flit ar 2));
        d1 = fadd ar c (fdiv ar (DOOR_W_ar ar) (flit ar 2));
        plane = fadd ar x (fmul ar (nval n) (fdiv ar (WALL_T_ar ar) (flit ar 2)));
        w' = addWallZ_ar ar x lo hi n (Some c) w;
        E = drop (length (segs w)) (segs w')
    in take (length (segs w)) (segs w') = segs w \<and>
       E = (if d0 > fadd ar lo (flit ar 0.01) then [SegZ plane lo d0 n] else []) @
           (if hi > fadd ar d1 (flit ar 0.01) then [SegZ plane d1 hi n] else []) \<and>
       (\<forall>p. d0 < p \<and> p < d1 \<longrightarrow> \<not> list_ex (onSegZ p) E) \<and>
       (lo \<le> d0 \<and> d0 \<le> d1 \<and> d1 \<le> hi \<longrightarrow>
          (\<forall>p. list_ex (onSegZ p) E \<or> (d0 \<le> p \<and> p \<le> d1) \<longrightarrow> lo \<le> p \<and> p \<le> hi)) \<and>
       (\<forall>p. lo \<le> p \<and> p \<le> hi \<longrightarrow>
          list_ex (onSegZ p) E \<or> (d0 \<le> p \<and> p \<le> d1) \<or>
          (p < d0 \<and> d0 \<le> fadd ar lo (flit ar 0.01)) \<or>
          (d1 < p \<and> hi \<le> fadd ar d1 (flit ar 0.01))) \<and>
       (d0 \<le> fadd ar lo (flit ar 0.01) \<and> hi \<le> fadd ar d1 (flit ar 0.01) \<longrightarrow> E = [])) \<and>
   list_all doorWithinRun wall_calls"
  by (intro conjI doorway_cut_X doorway_cut_Z doors_within_runs)

theorem doorway_cutting_witness:
  "segs (addWallX_ar exact (- 10) (- 16) 16 Plus1 (Some 0) no_walls) =
     [SegX (- 9.89) (- 16) (- 1.5) Plus1, SegX (- 9.89) 1.5 16 Plus1] \<and>
   segs (addWallZ_ar exact (- 16) (- 10) 10 Plus1 (Some 0) no_walls) =
     [SegZ (- 15.89) (- 10) (- 1.5) Plus1, SegZ (- 15.89) 1.5 10 Plus1] \<and>
   \<not> list_ex (onSegX 0) (segs (addWallX_ar exact (- 10) (- 16) 16 Plus1 (Some 0) no_walls)) \<and>
   list_ex (onSegX (- 5)) (segs (addWallX_ar exact (- 10) (- 16) 16 Plus1 (Some 0) no_walls)) \<and>
   segs (addWallX_ar exact 0 0 3 Plus1 (Some 1.5) no_walls) = []"
  using doorway_cutting [where ar = exact and c = 0 and lo = "- 16" and hi = 16 and z = "- 10"
      and n = Plus1 and w = no_walls and x = "- 16"]
    doorway_cutting [where ar = exact and c = 0 and lo = "- 10" and hi = 10 and z = "- 16"
      and n = Plus1 and w = no_walls and x = "- 16"]
    doorway_cutting [where ar = exact and c = "1.5" and lo = 0 and hi = 3 and z = 0
      and n = Plus1 and w = no_walls and x = 0]
  by (simp add: Let_def no_walls_def dims_ar exact_ops onSegX_def)

text \<open>
  C1 as stated fails where the doorway is wider than the run. For the run \<open>[0, 2]\<close> with
  a doorway at 1 (the doorway edges -0.5 and 2.5 are computed without rounding in doubles
  as well) the builder emits nothing, and the gap \<open>[-0.5, 2.5]\<close> reaches beyond the run
  by 0.5 at each end: the point 2.4 lies in the gap and not within 0.01 of the run.
\<close>

theorem doorway_wider_than_run:
  "segs (addWallX_ar exact 0 0 2 Plus1 (Some 1) no_walls) = [] \<and>
   fsub exact 1 (fdiv exact (DOOR_W_ar exact) (flit exact 2)) = - 0.5 \<and>
   fadd exact 1 (fdiv exact (DOOR_W_ar exact) (flit exact 2)) = 2.5 \<and>
   (- 0.5 :: real) \<le> 2.4 \<and> (2.4 :: real) \<le> 2.5 \<and> (2 :: real) + 0.01 < 2.4"
  by (simp add: Let_def no_walls_def dims_ar exact_ops)







subsection \<open>Painting placement\<close>

lemma hitWallX_ar_iff:
  "hitWallX_ar ar sgs px pz \<longleftrightarrow>
     (\<exists>ox oz0 oz1 onX. SegZ ox oz0 oz1 onX \<in> set sgs \<and>
        \<bar>fsub ar ox px\<bar> < fadd ar (HALF_W_ar ar) (flit ar 0.05) \<and>
        fsub ar oz0 (flit ar 0.05) \<le> pz \<and> pz \<le> fadd ar oz1 (flit ar 0.05))"
proof (induction sgs)
  case Nil
  then show ?case by (simp add: hitWallX_ar_def)
next
  case (Cons s sgs)
  then show ?case
    by (cases s) (auto simp: hitWallX_ar_def Let_def)
qed

lemma hitWallZ_ar_iff:
  "hitWallZ_ar ar sgs px pz \<longleftrightarrow>
     (\<exists>oz ox0 ox1 onZ. SegX oz ox0 ox1 onZ \<in> set sgs \<and>
        \<bar>fsub ar oz pz\<bar> < fadd ar (HALF_W_ar ar) (flit ar 0.05) \<and>
        fsub ar ox0 (flit ar 0.05) \<le> px \<and> px \<le> fadd ar ox1 (flit ar 0.05))"
proof (induction sgs)
  case Nil
  then show ?case by (simp add: hitWallZ_ar_def)
next
  case (Cons s sgs)
  then show ?case
    by (cases s) (auto simp: hitWallZ_ar_def Let_def)
qed

lemma loopX_ar_step:
  "real_of_int i < count \<Longrightarrow> idx st < length frames \<Longrightarrow>
   hangOnSegX_loop_ar ar sgs base frames plane n count startP endP i st =
   hangOnSegX_loop_ar ar sgs base frames plane n count startP endP (i + 1)
     (if hitWallX_ar ar sgs
           (fadd ar startP
              (fmul ar (if count = flit ar 1 then flit ar 0.5
                        else fdiv ar (real_of_int i) (fsub ar count (flit ar 1)))
                 (fsub ar endP startP)))
           (fadd ar plane (if nval n > 0 then WALL_GAP_ar ar else - WALL_GAP_ar ar))
      then st
      else st\<lparr>idx := idx st + 1,
              scene := scene st @
                [frameX_ar ar base n
                   (fadd ar startP
                      (fmul ar (if count = flit ar 1 then flit ar 0.5
                                else fdiv ar (real_of_int i) (fsub ar count (flit ar 1)))
                         (fsub ar endP startP)))
                   (fadd ar plane (if nval n > 0 then WALL_GAP_ar ar else - WALL_GAP_ar ar))
                   (frames ! idx st)]\<rparr>)"
  by (subst hangOnSegX_loop_ar.simps) (simp add: Let_def frameX_ar_def)

lemma loopZ_ar_step:
  "real_of_int i < count \<Longrightarrow> idx st < length frames \<Longrightarrow>
   hangOnSegZ_loop_ar ar sgs base frames plane n count startP endP i st =
   hangOnSegZ_loop_ar ar sgs base frames plane n count startP endP (i + 1)
     (if hitWallZ_ar ar sgs
           (fadd ar plane (if nval n > 0 then WALL_GAP_ar ar else - WALL_GAP_ar ar))
           (fadd ar startP
              (fmul ar (if count = flit ar 1 then flit ar 0.5
                        else fdiv ar (real_of_int i) (fsub ar count (flit ar 1)))
                 (fsub ar endP startP)))
      then st
      else st\<lparr>idx := idx st + 1,
              scene := scene st @
                [frameZ_ar ar base n
                   (fadd ar plane (if nval n > 0 then WALL_GAP_ar ar else - WALL_GAP_ar ar))
                   (fadd ar startP
                      (fmul ar (if count = flit ar 1 then flit ar 0.5
                                else fdiv ar (real_of_int i) (fsub ar count (flit ar 1)))
                         (fsub ar endP startP)))
                   (frames ! idx st)]\<rparr>)"
  by (subst hangOnSegZ_loop_ar.simps) (simp add: Let_def frameZ_ar_def)

lemma loopX_ar_done:
  assumes "\<not> (real_of_int i < count \<and> idx st < length frames)"
  shows "hangOnSegX_loop_ar ar sgs base frames plane n count startP endP i st = st"
  by (subst hangOnSegX_loop_ar.simps) (rule if_not_P [OF assms])

lemma loopZ_ar_done:
  assumes "\<not> (real_of_int i < count \<and> idx st < length frames)"
  shows "hangOnSegZ_loop_ar ar sgs base frames plane n count startP endP i st = st"
  by (subst hangOnSegZ_loop_ar.simps) (rule if_not_P [OF assms])

text \<open>
  C3. Corner avoidance, in the program's arithmetic. The check of \<open>hangOnSegX\<close> is true
  exactly when some segment along Z has its plane strictly within \<open>HALF_W + 0.05\<close> of the
  candidate's x (difference and threshold as the program computes them) and the
  candidate's z within that segment's span widened by 0.05 at each end; the check of
  \<open>hangOnSegZ\<close> is the same with the axes exchanged. A candidate the loop reaches while
  records remain is skipped when the check is true, and receives the next record
  otherwise.
\<close>

theorem corner_avoidance:
  "(hitWallX_ar ar sgs px pz \<longleftrightarrow>
     (\<exists>ox oz0 oz1 onX. SegZ ox oz0 oz1 onX \<in> set sgs \<and>
        \<bar>fsub ar ox px\<bar> < fadd ar (HALF_W_ar ar) (flit ar 0.05) \<and>
        fsub ar oz0 (flit ar 0.05) \<le> pz \<and> pz \<le> fadd ar oz1 (flit ar 0.05))) \<and>
   (hitWallZ_ar ar sgs px pz \<longleftrightarrow>
     (\<exists>oz ox0 ox1 onZ. SegX oz ox0 ox1 onZ \<in> set sgs \<and>
        \<bar>fsub ar oz pz\<bar> < fadd ar (HALF_W_ar ar) (flit ar 0.05) \<and>
        fsub ar ox0 (flit ar 0.05) \<le> px \<and> px \<le> fadd ar ox1 (flit ar 0.05))) \<and>
   (real_of_int i < count \<and> idx st < length frames \<longrightarrow>
    hangOnSegX_loop_ar ar sgs base frames plane n count startP endP i st =
    hangOnSegX_loop_ar ar sgs base frames plane n count startP endP (i + 1)
      (if hitWallX_ar ar sgs
            (fadd ar startP
               (fmul ar (if count = flit ar 1 then flit ar 0.5
                         else fdiv ar (real_of_int i) (fsub ar count (flit ar 1)))
                  (fsub ar endP startP)))
            (fadd ar plane (if nval n > 0 then WALL_GAP_ar ar else - WALL_GAP_ar ar))
       then st
       else st\<lparr>idx := idx st + 1,
               scene := scene st @
                 [frameX_ar ar base n
                    (fadd ar startP
                       (fmul ar (if count = flit ar 1 then flit ar 0.5
                                 else fdiv ar (real_of_int i) (fsub ar count (flit ar 1)))
                          (fsub ar endP startP)))
                    (fadd ar plane (if nval n > 0 then WALL_GAP_ar ar else - WALL_GAP_ar ar))
                    (frames ! idx st)]\<rparr>)) \<and>
   (real_of_int i < count \<and> idx st < length frames \<longrightarrow>
    hangOnSegZ_loop_ar ar sgs base frames plane n count startP endP i st =
    hangOnSegZ_loop_ar ar sgs base frames plane n count startP endP (i + 1)
      (if hitWallZ_ar ar sgs
            (fadd ar plane (if nval n > 0 then WALL_GAP_ar ar else - WALL_GAP_ar ar))
            (fadd ar startP
               (fmul ar (if count = flit ar 1 then flit ar 0.5
                         else fdiv ar (real_of_int i) (fsub ar count (flit ar 1)))
                  (fsub ar endP startP)))
       then st
       else st\<lparr>idx := idx st + 1,
               scene := scene st @
                 [frameZ_ar ar base n
                    (fadd ar plane (if nval n > 0 then WALL_GAP_ar ar else - WALL_GAP_ar ar))
                    (fadd ar startP
                       (fmul ar (if count = flit ar 1 then flit ar 0.5
                                 else fdiv ar (real_of_int i) (fsub ar count (flit ar 1)))
                          (fsub ar endP startP)))
                    (frames ! idx st)]\<rparr>))"
proof (intro conjI impI)
  show "hitWallX_ar ar sgs px pz \<longleftrightarrow>
     (\<exists>ox oz0 oz1 onX. SegZ ox oz0 oz1 onX \<in> set sgs \<and>
        \<bar>fsub ar ox px\<bar> < fadd ar (HALF_W_ar ar) (flit ar 0.05) \<and>
        fsub ar oz0 (flit ar 0.05) \<le> pz \<and> pz \<le> fadd ar oz1 (flit ar 0.05))"
    by (rule hitWallX_ar_iff)
  show "hitWallZ_ar ar sgs px pz \<longleftrightarrow>
     (\<exists>oz ox0 ox1 onZ. SegX oz ox0 ox1 onZ \<in> set sgs \<and>
        \<bar>fsub ar oz pz\<bar> < fadd ar (HALF_W_ar ar) (flit ar 0.05) \<and>
        fsub ar ox0 (flit ar 0.05) \<le> px \<and> px \<le> fadd ar ox1 (flit ar 0.05))"
    by (rule hitWallZ_ar_iff)
next
  assume "real_of_int i < count \<and> idx st < length frames"
  then show "hangOnSegX_loop_ar ar sgs base frames plane n count startP endP i st =
    hangOnSegX_loop_ar ar sgs base frames plane n count startP endP (i + 1)
      (if hitWallX_ar ar sgs
            (fadd ar startP
               (fmul ar (if count = flit ar 1 then flit ar 0.5
                         else fdiv ar (real_of_int i) (fsub ar count (flit ar 1)))
                  (fsub ar endP startP)))
            (fadd ar plane (if nval n > 0 then WALL_GAP_ar ar else - WALL_GAP_ar ar))
       then st
       else st\<lparr>idx := idx st + 1,
               scene := scene st @
                 [frameX_ar ar base n
                    (fadd ar startP
                       (fmul ar (if count = flit ar 1 then flit ar 0.5
                                 else fdiv ar (real_of_int i) (fsub ar count (flit ar 1)))
                          (fsub ar endP startP)))
                    (fadd ar plane (if nval n > 0 then WALL_GAP_ar ar else - WALL_GAP_ar ar))
                    (frames ! idx st)]\<rparr>)"
    using loopX_ar_step by blast
next
  assume "real_of_int i < count \<and> idx st < length frames"
  then show "hangOnSegZ_loop_ar ar sgs base frames plane n count startP endP i st =
    hangOnSegZ_loop_ar ar sgs base frames plane n count startP endP (i + 1)
      (if hitWallZ_ar ar sgs
            (fadd ar plane (if nval n > 0 then WALL_GAP_ar ar else - WALL_GAP_ar ar))
            (fadd ar startP
               (fmul ar (if count = flit ar 1 then flit ar 0.5
                         else fdiv ar (real_of_int i) (fsub ar count (flit ar 1)))
                  (fsub ar endP startP)))
       then st
       else st\<lparr>idx := idx st + 1,
               scene := scene st @
                 [frameZ_ar ar base n
                    (fadd ar plane (if nval n > 0 then WALL_GAP_ar ar else - WALL_GAP_ar ar))
                    (fadd ar startP
                       (fmul ar (if count = flit ar 1 then flit ar 0.5
                                 else fdiv ar (real_of_int i) (fsub ar count (flit ar 1)))
                          (fsub ar endP startP)))
                    (frames ! idx st)]\<rparr>)"
    using loopZ_ar_step by blast
qed

theorem corner_avoidance_witness:
  "hitWallX_ar exact [SegZ 5 0 10 Minus1] 4.5 0.25 \<and>
   \<not> hitWallX_ar exact [SegZ 5 0 10 Minus1] 4 0.25 \<and>
   \<not> hitWallX_ar exact [SegZ 5 0 10 Minus1] 5 (- 0.25) \<and>
   hitWallZ_ar exact [SegX 5 0 10 Minus1] 10 5.5 \<and>
   hangOnSegX_loop_ar exact [SegZ 5 0 10 Minus1] ''images'' [art ''a.jpg''] 0 Plus1 1 4 6 0
      \<lparr>idx = 0, scene = []\<rparr> = \<lparr>idx = 0, scene = []\<rparr> \<and>
   hangOnSegX_loop_ar exact [SegZ 5 0 10 Minus1] ''images'' [art ''a.jpg''] 0 Plus1 1 6 8 0
      \<lparr>idx = 0, scene = []\<rparr> =
      \<lparr>idx = 1, scene = [frameX_ar exact ''images'' Plus1 7 0.2 (art ''a.jpg'')]\<rparr>"
proof -
  note t = corner_avoidance [where ar = exact and sgs = "[SegZ 5 0 10 Minus1]"]
  have a: "hitWallX_ar exact [SegZ 5 0 10 Minus1] 4.5 0.25"
    using t [where px = "4.5" and pz = "0.25"] by (simp add: dims_ar exact_ops)
  have b: "\<not> hitWallX_ar exact [SegZ 5 0 10 Minus1] 4 0.25"
    using t [where px = 4 and pz = "0.25"] by (simp add: dims_ar exact_ops)
  have c: "\<not> hitWallX_ar exact [SegZ 5 0 10 Minus1] 5 (- 0.25)"
    using t [where px = 5 and pz = "- 0.25"] by (simp add: dims_ar exact_ops)
  have d: "hitWallZ_ar exact [SegX 5 0 10 Minus1] 10 5.5"
    using corner_avoidance [where ar = exact and sgs = "[SegX 5 0 10 Minus1]"
        and px = 10 and pz = "5.5"]
    by (simp add: dims_ar exact_ops)
  have e: "hangOnSegX_loop_ar exact [SegZ 5 0 10 Minus1] ''images'' [art ''a.jpg''] 0 Plus1 1 4 6 0
      \<lparr>idx = 0, scene = []\<rparr> = \<lparr>idx = 0, scene = []\<rparr>"
    using t [where i = 0 and count = 1 and st = "\<lparr>idx = 0, scene = []\<rparr>"
        and frames = "[art ''a.jpg'']" and startP = 4 and endP = 6 and plane = 0 and n = Plus1
        and base = "''images''"]
    by (simp add: loopX_ar_done hitWallX_ar_def dims_ar exact_ops)
  have f: "hangOnSegX_loop_ar exact [SegZ 5 0 10 Minus1] ''images'' [art ''a.jpg''] 0 Plus1 1 6 8 0
      \<lparr>idx = 0, scene = []\<rparr> =
      \<lparr>idx = 1, scene = [frameX_ar exact ''images'' Plus1 7 0.2 (art ''a.jpg'')]\<rparr>"
    using t [where i = 0 and count = 1 and st = "\<lparr>idx = 0, scene = []\<rparr>"
        and frames = "[art ''a.jpg'']" and startP = 6 and endP = 8 and plane = 0 and n = Plus1
        and base = "''images''"]
    by (simp add: loopX_ar_done hitWallX_ar_def dims_ar exact_ops)
  from a b c d e f show ?thesis by blast
qed

lemma placeEach_exhausted: "length frames \<le> idx st \<Longrightarrow> placeEach frames mks st = st"
  by (cases mks) auto

lemma upto_ceiling_from:
  "real_of_int i < count \<Longrightarrow> [i..\<lceil>count\<rceil> - 1] = i # [i + 1..\<lceil>count\<rceil> - 1]"
  by (simp add: upto_rec1 less_ceiling_iff)

lemma upto_ceiling_done:
  "\<not> real_of_int i < count \<Longrightarrow> [i..\<lceil>count\<rceil> - 1] = []"
  using less_ceiling_iff [of i count] by simp

lemma loopX_ar_place:
  "hangOnSegX_loop_ar ar sgs base frames plane n count startP endP i st =
   placeEach frames
     (map (\<lambda>j. frameX_ar ar base n
                (fadd ar startP
                   (fmul ar (if count = flit ar 1 then flit ar 0.5
                             else fdiv ar (real_of_int j) (fsub ar count (flit ar 1)))
                      (fsub ar endP startP)))
                (fadd ar plane (if nval n > 0 then WALL_GAP_ar ar else - WALL_GAP_ar ar)))
        (filter (\<lambda>j. \<not> hitWallX_ar ar sgs
                (fadd ar startP
                   (fmul ar (if count = flit ar 1 then flit ar 0.5
                             else fdiv ar (real_of_int j) (fsub ar count (flit ar 1)))
                      (fsub ar endP startP)))
                (fadd ar plane (if nval n > 0 then WALL_GAP_ar ar else - WALL_GAP_ar ar)))
           [i..\<lceil>count\<rceil> - 1])) st"
proof (induction ar sgs base frames plane n count startP endP i st
    rule: hangOnSegX_loop_ar.induct)
  case (1 ar sgs base frames plane n count startP endP i st)
  show ?case
  proof (cases "real_of_int i < count")
    case False
    then show ?thesis by (simp add: loopX_ar_done upto_ceiling_done)
  next
    case lt: True
    show ?thesis
    proof (cases "idx st < length frames")
      case False
      then show ?thesis by (simp add: loopX_ar_done placeEach_exhausted)
    next
      case True
      note step = loopX_ar_step [OF lt True, of ar sgs base plane n startP endP]
      note up = upto_ceiling_from [OF lt]
      show ?thesis
      proof (cases "hitWallX_ar ar sgs
                (fadd ar startP
                   (fmul ar (if count = flit ar 1 then flit ar 0.5
                             else fdiv ar (real_of_int i) (fsub ar count (flit ar 1)))
                      (fsub ar endP startP)))
                (fadd ar plane (if nval n > 0 then WALL_GAP_ar ar else - WALL_GAP_ar ar))")
        case hit: True
        from 1(1) [OF conjI [OF lt True] refl refl refl hit]
        show ?thesis
          unfolding step up using hit by simp
      next
        case nohit: False
        from 1(2) [OF conjI [OF lt True] refl refl refl nohit refl refl]
        show ?thesis
          unfolding step up using nohit True by (simp add: frameX_ar_def)
      qed
    qed
  qed
qed

lemma loopZ_ar_place:
  "hangOnSegZ_loop_ar ar sgs base frames plane n count startP endP i st =
   placeEach frames
     (map (\<lambda>j. frameZ_ar ar base n
                (fadd ar plane (if nval n > 0 then WALL_GAP_ar ar else - WALL_GAP_ar ar))
                (fadd ar startP
                   (fmul ar (if count = flit ar 1 then flit ar 0.5
                             else fdiv ar (real_of_int j) (fsub ar count (flit ar 1)))
                      (fsub ar endP startP))))
        (filter (\<lambda>j. \<not> hitWallZ_ar ar sgs
                (fadd ar plane (if nval n > 0 then WALL_GAP_ar ar else - WALL_GAP_ar ar))
                (fadd ar startP
                   (fmul ar (if count = flit ar 1 then flit ar 0.5
                             else fdiv ar (real_of_int j) (fsub ar count (flit ar 1)))
                      (fsub ar endP startP))))
           [i..\<lceil>count\<rceil> - 1])) st"
proof (induction ar sgs base frames plane n count startP endP i st
    rule: hangOnSegZ_loop_ar.induct)
  case (1 ar sgs base frames plane n count startP endP i st)
  show ?case
  proof (cases "real_of_int i < count")
    case False
    then show ?thesis by (simp add: loopZ_ar_done upto_ceiling_done)
  next
    case lt: True
    show ?thesis
    proof (cases "idx st < length frames")
      case False
      then show ?thesis by (simp add: loopZ_ar_done placeEach_exhausted)
    next
      case True
      note step = loopZ_ar_step [OF lt True, of ar sgs base plane n startP endP]
      note up = upto_ceiling_from [OF lt]
      show ?thesis
      proof (cases "hitWallZ_ar ar sgs
                (fadd ar plane (if nval n > 0 then WALL_GAP_ar ar else - WALL_GAP_ar ar))
                (fadd ar startP
                   (fmul ar (if count = flit ar 1 then flit ar 0.5
                             else fdiv ar (real_of_int i) (fsub ar count (flit ar 1)))
                      (fsub ar endP startP)))")
        case hit: True
        from 1(1) [OF conjI [OF lt True] refl refl refl hit]
        show ?thesis
          unfolding step up using hit by simp
      next
        case nohit: False
        from 1(2) [OF conjI [OF lt True] refl refl refl nohit refl refl]
        show ?thesis
          unfolding step up using nohit True by (simp add: frameZ_ar_def)
      qed
    qed
  qed
qed

text \<open>
  C7. Slot geometry, for \<open>hangOnSegX\<close> and \<open>hangOnSegZ\<close> alike and in the program's
  arithmetic, every operation as the program computes it: with
  \<open>usable = (hi - lo) - 2 * (CAP_MARGIN + HALF_W)\<close>, a segment with \<open>usable \<le> 0\<close> hosts no
  frame; otherwise the candidates are numbered by the integers \<open>i \<ge> 0\<close> below
  \<open>count = floor (usable / SPACING) + 1\<close>; a single candidate sits halfway between
  \<open>start = lo + CAP_MARGIN + HALF_W\<close> and \<open>end = hi - CAP_MARGIN - HALF_W\<close>, at
  \<open>start + 0.5 * (end - start)\<close>, and with another count candidate \<open>i\<close> sits at
  \<open>start + (i / (count - 1)) * (end - start)\<close>. The frames of the segment hang on these
  candidates, in order, leaving out the rejected ones, while records last. In exact
  arithmetic the halfway point is the segment's midpoint \<open>(lo + hi) / 2\<close>. Whenever the
  sum \<open>k + 1\<close> is computed without rounding, as it is in doubles for an integer \<open>k\<close> below
  \<open>2^53\<close>, the candidates of the count \<open>k + 1\<close> are numbered \<open>0 .. k\<close>.
\<close>

theorem slot_geometry:
  "(let usable = fsub ar (fsub ar hi lo)
                   (fmul ar (flit ar 2) (fadd ar (CAP_MARGIN_ar ar) (HALF_W_ar ar)));
        count = fadd ar (real_of_int \<lfloor>fdiv ar usable (SPACING_ar ar)\<rfloor>) (flit ar 1);
        start = fadd ar (fadd ar lo (CAP_MARGIN_ar ar)) (HALF_W_ar ar);
        end = fsub ar (fsub ar hi (CAP_MARGIN_ar ar)) (HALF_W_ar ar);
        pos = (\<lambda>i. fadd ar start
                 (fmul ar (if count = flit ar 1 then flit ar 0.5
                           else fdiv ar (real_of_int i) (fsub ar count (flit ar 1)))
                    (fsub ar end start)));
        off = fadd ar plane (if nval n > 0 then WALL_GAP_ar ar else - WALL_GAP_ar ar)
    in (usable \<le> 0 \<longrightarrow>
          hangOnSegX_ar ar sgs base frames plane lo hi n st = st \<and>
          hangOnSegZ_ar ar sgs base frames plane lo hi n st = st) \<and>
       (0 < usable \<longrightarrow>
          hangOnSegX_ar ar sgs base frames plane lo hi n st =
            placeEach frames
              (map (\<lambda>i. frameX_ar ar base n (pos i) off)
                 (filter (\<lambda>i. \<not> hitWallX_ar ar sgs (pos i) off) [0..\<lceil>count\<rceil> - 1])) st \<and>
          hangOnSegZ_ar ar sgs base frames plane lo hi n st =
            placeEach frames
              (map (\<lambda>i. frameZ_ar ar base n off (pos i))
                 (filter (\<lambda>i. \<not> hitWallZ_ar ar sgs off (pos i)) [0..\<lceil>count\<rceil> - 1])) st)) \<and>
   fadd exact (fadd exact (fadd exact lo (CAP_MARGIN_ar exact)) (HALF_W_ar exact))
     (fmul exact (flit exact 0.5)
        (fsub exact (fsub exact (fsub exact hi (CAP_MARGIN_ar exact)) (HALF_W_ar exact))
           (fadd exact (fadd exact lo (CAP_MARGIN_ar exact)) (HALF_W_ar exact)))) =
     (lo + hi) / 2 \<and>
   (fadd ar (real_of_int k) (flit ar 1) = real_of_int k + 1 \<longrightarrow>
      [0..\<lceil>fadd ar (real_of_int k) (flit ar 1)\<rceil> - 1] = [0..k])"
proof (intro conjI)
  show "fadd exact (fadd exact (fadd exact lo (CAP_MARGIN_ar exact)) (HALF_W_ar exact))
     (fmul exact (flit exact 0.5)
        (fsub exact (fsub exact (fsub exact hi (CAP_MARGIN_ar exact)) (HALF_W_ar exact))
           (fadd exact (fadd exact lo (CAP_MARGIN_ar exact)) (HALF_W_ar exact)))) =
     (lo + hi) / 2"
    by (simp add: exact_ops dims_ar field_simps)
  show "fadd ar (real_of_int k) (flit ar 1) = real_of_int k + 1 \<longrightarrow>
      [0..\<lceil>fadd ar (real_of_int k) (flit ar 1)\<rceil> - 1] = [0..k]"
  proof
    assume e: "fadd ar (real_of_int k) (flit ar 1) = real_of_int k + 1"
    have "\<lceil>real_of_int k + 1\<rceil> = k + 1"
      by linarith
    then show "[0..\<lceil>fadd ar (real_of_int k) (flit ar 1)\<rceil> - 1] = [0..k]"
      unfolding e by simp
  qed
  show "(let usable = fsub ar (fsub ar hi lo)
                   (fmul ar (flit ar 2) (fadd ar (CAP_MARGIN_ar ar) (HALF_W_ar ar)));
        count = fadd ar (real_of_int \<lfloor>fdiv ar usable (SPACING_ar ar)\<rfloor>) (flit ar 1);
        start = fadd ar (fadd ar lo (CAP_MARGIN_ar ar)) (HALF_W_ar ar);
        end = fsub ar (fsub ar hi (CAP_MARGIN_ar ar)) (HALF_W_ar ar);
        pos = (\<lambda>i. fadd ar start
                 (fmul ar (if count = flit ar 1 then flit ar 0.5
                           else fdiv ar (real_of_int i) (fsub ar count (flit ar 1)))
                    (fsub ar end start)));
        off = fadd ar plane (if nval n > 0 then WALL_GAP_ar ar else - WALL_GAP_ar ar)
    in (usable \<le> 0 \<longrightarrow>
          hangOnSegX_ar ar sgs base frames plane lo hi n st = st \<and>
          hangOnSegZ_ar ar sgs base frames plane lo hi n st = st) \<and>
       (0 < usable \<longrightarrow>
          hangOnSegX_ar ar sgs base frames plane lo hi n st =
            placeEach frames
              (map (\<lambda>i. frameX_ar ar base n (pos i) off)
                 (filter (\<lambda>i. \<not> hitWallX_ar ar sgs (pos i) off) [0..\<lceil>count\<rceil> - 1])) st \<and>
          hangOnSegZ_ar ar sgs base frames plane lo hi n st =
            placeEach frames
              (map (\<lambda>i. frameZ_ar ar base n off (pos i))
                 (filter (\<lambda>i. \<not> hitWallZ_ar ar sgs off (pos i)) [0..\<lceil>count\<rceil> - 1])) st))"
    unfolding Let_def hangOnSegX_ar_def hangOnSegZ_ar_def loopX_ar_place loopZ_ar_place
    by (intro conjI impI) (simp_all only: simp_thms if_True if_False not_le [symmetric])
qed


theorem slot_geometry_witness:
  "map posX (scene (hangOnSegX_ar exact [] ''images''
       [art ''a.jpg'', art ''b.jpg'', art ''c.jpg'', art ''d.jpg'', art ''e.jpg'']
       (- 9.89) (- 16) (- 1.5) Plus1 \<lparr>idx = 0, scene = []\<rparr>)) =
     [- 14.3, - 10.6, - 6.9, - 3.2] \<and>
   map posZ (scene (hangOnSegZ_ar exact [] ''images'' [art ''a.jpg''] 0 0 5 Plus1
       \<lparr>idx = 0, scene = []\<rparr>)) = [2.5] \<and>
   hangOnSegX_ar exact [] ''images'' [art ''a.jpg''] 0 0 3.4 Plus1 \<lparr>idx = 0, scene = []\<rparr> =
     \<lparr>idx = 0, scene = []\<rparr>"
proof -
  have u4: "0 < fsub exact (fsub exact (- 1.5) (- 16)) (fmul exact (flit exact 2) (fadd exact (CAP_MARGIN_ar exact) (HALF_W_ar exact)))"
    by (simp add: exact_ops dims_ar)
  have cnt4: "\<lceil>fadd exact (real_of_int \<lfloor>fdiv exact (fsub exact (fsub exact (- 1.5) (- 16)) (fmul exact (flit exact 2) (fadd exact (CAP_MARGIN_ar exact) (HALF_W_ar exact)))) (SPACING_ar exact)\<rfloor>) (flit exact 1)\<rceil> - 1 = 3"
    by (simp add: exact_ops dims_ar)
  have r4: "[0..(3::int)] = [0, 1, 2, 3]"
    by (simp add: upto.simps)
  note eq4 = slot_geometry [where ar = exact and lo = "- 16" and hi = "- 1.5" and sgs = "[]"
      and base = "''images''"
      and frames = "[art ''a.jpg'', art ''b.jpg'', art ''c.jpg'', art ''d.jpg'', art ''e.jpg'']"
      and plane = "- 9.89" and n = Plus1 and st = "\<lparr>idx = 0, scene = []\<rparr>",
      unfolded Let_def, THEN conjunct1, THEN conjunct2, THEN mp, OF u4, THEN conjunct1,
      unfolded cnt4 r4]
  have a: "map posX (scene (hangOnSegX_ar exact [] ''images''
       [art ''a.jpg'', art ''b.jpg'', art ''c.jpg'', art ''d.jpg'', art ''e.jpg'']
       (- 9.89) (- 16) (- 1.5) Plus1 \<lparr>idx = 0, scene = []\<rparr>)) =
     [- 14.3, - 10.6, - 6.9, - 3.2]"
    unfolding eq4 by (simp add: exact_ops dims_ar frameX_ar_def hitWallX_ar_def)
  have u1: "0 < fsub exact (fsub exact 5 0) (fmul exact (flit exact 2) (fadd exact (CAP_MARGIN_ar exact) (HALF_W_ar exact)))"
    by (simp add: exact_ops dims_ar)
  have cnt1: "\<lceil>fadd exact (real_of_int \<lfloor>fdiv exact (fsub exact (fsub exact 5 0) (fmul exact (flit exact 2) (fadd exact (CAP_MARGIN_ar exact) (HALF_W_ar exact)))) (SPACING_ar exact)\<rfloor>) (flit exact 1)\<rceil> - 1 = 0"
    by (simp add: exact_ops dims_ar)
  have r1: "[0..(0::int)] = [0]"
    by (simp add: upto.simps)
  note eq1 = slot_geometry [where ar = exact and lo = 0 and hi = 5 and sgs = "[]"
      and base = "''images''" and frames = "[art ''a.jpg'']"
      and plane = 0 and n = Plus1 and st = "\<lparr>idx = 0, scene = []\<rparr>",
      unfolded Let_def, THEN conjunct1, THEN conjunct2, THEN mp, OF u1, THEN conjunct2,
      unfolded cnt1 r1]
  have b: "map posZ (scene (hangOnSegZ_ar exact [] ''images'' [art ''a.jpg''] 0 0 5 Plus1
       \<lparr>idx = 0, scene = []\<rparr>)) = [2.5]"
    unfolding eq1 by (simp add: exact_ops dims_ar frameZ_ar_def hitWallZ_ar_def)
  have u0: "fsub exact (fsub exact 3.4 0) (fmul exact (flit exact 2) (fadd exact (CAP_MARGIN_ar exact) (HALF_W_ar exact))) \<le> 0"
    by (simp add: exact_ops dims_ar)
  from slot_geometry [where ar = exact and lo = 0 and hi = "3.4" and sgs = "[]"
      and base = "''images''" and frames = "[art ''a.jpg'']" and plane = 0
      and n = Plus1 and st = "\<lparr>idx = 0, scene = []\<rparr>", unfolded Let_def] u0
  have c: "hangOnSegX_ar exact [] ''images'' [art ''a.jpg''] 0 0 3.4 Plus1 \<lparr>idx = 0, scene = []\<rparr> =
     \<lparr>idx = 0, scene = []\<rparr>"
    by blast
  from a b c show ?thesis by blast
qed

subsection \<open>The controls\<close>

lemma collides_ar_iff:
  "collides_ar ar cs px pz \<longleftrightarrow>
     (\<exists>r \<in> set cs.
        fsub ar (RectXZ.minX r) (playerRadius_ar ar) < px \<and>
        px < fadd ar (RectXZ.maxX r) (playerRadius_ar ar) \<and>
        fsub ar (RectXZ.minZ r) (playerRadius_ar ar) < pz \<and>
        pz < fadd ar (RectXZ.maxZ r) (playerRadius_ar ar))"
  by (induction cs) (auto simp: Let_def)

lemma resolveAxes_ar_vx:
  "vx (resolveAxes_ar ar cs pos mv) =
     (if collides_ar ar cs (fadd ar (vx pos) (vx mv)) (vz pos) then vx pos
      else fadd ar (vx pos) (vx mv))"
  by (simp add: resolveAxes_ar_def Let_def)

lemma resolveAxes_ar_vz:
  "vz (resolveAxes_ar ar cs pos mv) =
     (if collides_ar ar cs (vx (resolveAxes_ar ar cs pos mv)) (fadd ar (vz pos) (vz mv))
      then vz pos else fadd ar (vz pos) (vz mv))"
  by (simp add: resolveAxes_ar_def Let_def)

lemma resolveAxes_ar_vy: "vy (resolveAxes_ar ar cs pos mv) = vy pos"
  by (simp add: resolveAxes_ar_def Let_def)

lemma update_ar_locked:
  "isLocked c \<Longrightarrow>
   update_ar ar dt c =
     c\<lparr>cameraPosition :=
         clampBounds (controls.bounds c)
           (resolveAxes_ar ar (controls.colliders c) (cameraPosition c) (moveOf_ar ar c dt))\<rparr>"
  by (simp add: update_ar_def Let_def)

lemma update_ar_unlocked: "\<not> isLocked c \<Longrightarrow> update_ar ar dt c = c"
  by (simp add: update_ar_def)

lemma single_collider_slide_ar:
  assumes out: "\<not> collides_ar ar [r] (vx pos) (vz pos)"
    and into: "collides_ar ar [r] (fadd ar (vx pos) (vx mv)) (fadd ar (vz pos) (vz mv))"
  shows "(collides_ar ar [r] (fadd ar (vx pos) (vx mv)) (vz pos) \<longrightarrow>
            vx (resolveAxes_ar ar [r] pos mv) = vx pos \<and>
            vz (resolveAxes_ar ar [r] pos mv) = fadd ar (vz pos) (vz mv)) \<and>
         (\<not> collides_ar ar [r] (fadd ar (vx pos) (vx mv)) (vz pos) \<longrightarrow>
            vx (resolveAxes_ar ar [r] pos mv) = fadd ar (vx pos) (vx mv) \<and>
            vz (resolveAxes_ar ar [r] pos mv) = vz pos)"
proof (cases "collides_ar ar [r] (fadd ar (vx pos) (vx mv)) (vz pos)")
  case True
  with out have "\<not> collides_ar ar [r] (vx pos) (fadd ar (vz pos) (vz mv))"
    unfolding collides_ar_iff by simp
  with True show ?thesis
    by (simp add: resolveAxes_ar_def Let_def del: collides_ar.simps)
next
  case False
  with into show ?thesis
    by (simp add: resolveAxes_ar_def Let_def del: collides_ar.simps)
qed

text \<open>
  C4, as the code has it, in the program's arithmetic. Per-axis sliding. The collision
  test is true exactly when some collider, widened by the player radius on all four sides
  (each widened edge as the program computes it), strictly contains the point: a point on
  an edge of the widened collider does not collide. The resolution forms the candidate X,
  keeps the camera's X when the candidate X with the current Z collides and takes the
  candidate otherwise; it then does the same for the candidate Z against the X just
  decided; Y is untouched. Under pointer lock \<open>update\<close> is this resolution of the computed
  move, followed by the clamp. With a single collider, a move from outside the widened
  collider to inside it advances on exactly one axis: on Z when the X candidate is
  blocked, on X otherwise.
\<close>

theorem per_axis_sliding:
  "(collides_ar ar cs px pz \<longleftrightarrow>
     (\<exists>r \<in> set cs.
        fsub ar (RectXZ.minX r) (playerRadius_ar ar) < px \<and>
        px < fadd ar (RectXZ.maxX r) (playerRadius_ar ar) \<and>
        fsub ar (RectXZ.minZ r) (playerRadius_ar ar) < pz \<and>
        pz < fadd ar (RectXZ.maxZ r) (playerRadius_ar ar))) \<and>
   vx (resolveAxes_ar ar cs pos mv) =
     (if collides_ar ar cs (fadd ar (vx pos) (vx mv)) (vz pos) then vx pos
      else fadd ar (vx pos) (vx mv)) \<and>
   vz (resolveAxes_ar ar cs pos mv) =
     (if collides_ar ar cs (vx (resolveAxes_ar ar cs pos mv)) (fadd ar (vz pos) (vz mv))
      then vz pos else fadd ar (vz pos) (vz mv)) \<and>
   vy (resolveAxes_ar ar cs pos mv) = vy pos \<and>
   (isLocked c \<longrightarrow>
      cameraPosition (update_ar ar dt c) =
        clampBounds (controls.bounds c)
          (resolveAxes_ar ar (controls.colliders c) (cameraPosition c) (moveOf_ar ar c dt))) \<and>
   (\<not> collides_ar ar [r] (vx pos) (vz pos) \<and>
    collides_ar ar [r] (fadd ar (vx pos) (vx mv)) (fadd ar (vz pos) (vz mv)) \<longrightarrow>
      (collides_ar ar [r] (fadd ar (vx pos) (vx mv)) (vz pos) \<longrightarrow>
         vx (resolveAxes_ar ar [r] pos mv) = vx pos \<and>
         vz (resolveAxes_ar ar [r] pos mv) = fadd ar (vz pos) (vz mv)) \<and>
      (\<not> collides_ar ar [r] (fadd ar (vx pos) (vx mv)) (vz pos) \<longrightarrow>
         vx (resolveAxes_ar ar [r] pos mv) = fadd ar (vx pos) (vx mv) \<and>
         vz (resolveAxes_ar ar [r] pos mv) = vz pos))"
proof (intro conjI)
  show "collides_ar ar cs px pz \<longleftrightarrow>
     (\<exists>r \<in> set cs.
        fsub ar (RectXZ.minX r) (playerRadius_ar ar) < px \<and>
        px < fadd ar (RectXZ.maxX r) (playerRadius_ar ar) \<and>
        fsub ar (RectXZ.minZ r) (playerRadius_ar ar) < pz \<and>
        pz < fadd ar (RectXZ.maxZ r) (playerRadius_ar ar))"
    by (rule collides_ar_iff)
  show "vx (resolveAxes_ar ar cs pos mv) =
     (if collides_ar ar cs (fadd ar (vx pos) (vx mv)) (vz pos) then vx pos
      else fadd ar (vx pos) (vx mv))"
    by (rule resolveAxes_ar_vx)
  show "vz (resolveAxes_ar ar cs pos mv) =
     (if collides_ar ar cs (vx (resolveAxes_ar ar cs pos mv)) (fadd ar (vz pos) (vz mv))
      then vz pos else fadd ar (vz pos) (vz mv))"
    by (rule resolveAxes_ar_vz)
  show "vy (resolveAxes_ar ar cs pos mv) = vy pos"
    by (rule resolveAxes_ar_vy)
  show "isLocked c \<longrightarrow>
      cameraPosition (update_ar ar dt c) =
        clampBounds (controls.bounds c)
          (resolveAxes_ar ar (controls.colliders c) (cameraPosition c) (moveOf_ar ar c dt))"
    by (simp add: update_ar_locked)
  show "\<not> collides_ar ar [r] (vx pos) (vz pos) \<and>
    collides_ar ar [r] (fadd ar (vx pos) (vx mv)) (fadd ar (vz pos) (vz mv)) \<longrightarrow>
      (collides_ar ar [r] (fadd ar (vx pos) (vx mv)) (vz pos) \<longrightarrow>
         vx (resolveAxes_ar ar [r] pos mv) = vx pos \<and>
         vz (resolveAxes_ar ar [r] pos mv) = fadd ar (vz pos) (vz mv)) \<and>
      (\<not> collides_ar ar [r] (fadd ar (vx pos) (vx mv)) (vz pos) \<longrightarrow>
         vx (resolveAxes_ar ar [r] pos mv) = fadd ar (vx pos) (vx mv) \<and>
         vz (resolveAxes_ar ar [r] pos mv) = vz pos)"
    using single_collider_slide_ar [of ar r pos mv] by blast
qed

theorem per_axis_sliding_witness:
  "resolveAxes_ar exact [\<lparr>minX = 5, maxX = 6, minZ = 5, maxZ = 6\<rparr>]
     \<lparr>vx = 4.6, vy = 1.6, vz = 4.7\<rparr> \<lparr>vx = 0.1, vy = 0, vz = 0.05\<rparr> =
     \<lparr>vx = 4.6, vy = 1.6, vz = 4.75\<rparr> \<and>
   resolveAxes_ar exact [\<lparr>minX = 5, maxX = 6, minZ = 5, maxZ = 6\<rparr>]
     \<lparr>vx = 4.6, vy = 1.6, vz = 4.6\<rparr> \<lparr>vx = 0.1, vy = 0, vz = 0.1\<rparr> =
     \<lparr>vx = 4.7, vy = 1.6, vz = 4.6\<rparr> \<and>
   cameraPosition (update_ar exact 0.05
     \<lparr>keys = {''w''}, isLocked = True, yaw = 0, pitch = 0,
      cameraRotation = \<lparr>vx = 0, vy = 0, vz = 0\<rparr>,
      cameraPosition = \<lparr>vx = 5.5, vy = 1.6, vz = 6.4\<rparr>,
      bounds = None,
      colliders = [\<lparr>minX = 5, maxX = 6, minZ = 5, maxZ = 6\<rparr>]\<rparr>) =
     \<lparr>vx = 5.5, vy = 1.6, vz = 6.4\<rparr>"
proof -
  let ?r = "\<lparr>minX = 5, maxX = 6, minZ = 5, maxZ = 6\<rparr> :: RectXZ"
  let ?c = "\<lparr>keys = {''w''}, isLocked = True, yaw = 0, pitch = 0,
      cameraRotation = \<lparr>vx = 0, vy = 0, vz = 0\<rparr>,
      cameraPosition = \<lparr>vx = 5.5, vy = 1.6, vz = 6.4\<rparr>,
      bounds = None, colliders = [?r]\<rparr>"
  let ?p1 = "\<lparr>vx = 4.6, vy = 1.6, vz = 4.7\<rparr> :: Vec3"
  let ?m1 = "\<lparr>vx = 0.1, vy = 0, vz = 0.05\<rparr> :: Vec3"
  let ?p2 = "\<lparr>vx = 4.6, vy = 1.6, vz = 4.6\<rparr> :: Vec3"
  let ?m2 = "\<lparr>vx = 0.1, vy = 0, vz = 0.1\<rparr> :: Vec3"
  note t1 = per_axis_sliding [where ar = exact and r = ?r and cs = "[?r]"
      and pos = ?p1 and mv = ?m1]
  note t2 = per_axis_sliding [where ar = exact and r = ?r and cs = "[?r]"
      and pos = ?p2 and mv = ?m2]
  note t3 = per_axis_sliding [where ar = exact and c = ?c and dt = "0.05"]
  have h1: "\<not> collides_ar exact [?r] (vx ?p1) (vz ?p1) \<and>
      collides_ar exact [?r] (fadd exact (vx ?p1) (vx ?m1)) (fadd exact (vz ?p1) (vz ?m1))"
    and b1: "collides_ar exact [?r] (fadd exact (vx ?p1) (vx ?m1)) (vz ?p1)"
    by (simp_all add: dims_ar exact_ops)
  from t1 h1 b1 have
    "vx (resolveAxes_ar exact [?r] ?p1 ?m1) = vx ?p1"
    "vz (resolveAxes_ar exact [?r] ?p1 ?m1) = fadd exact (vz ?p1) (vz ?m1)"
    "vy (resolveAxes_ar exact [?r] ?p1 ?m1) = vy ?p1"
    by blast+
  then have a: "resolveAxes_ar exact [?r] ?p1 ?m1 = \<lparr>vx = 4.6, vy = 1.6, vz = 4.75\<rparr>"
    by (cases "resolveAxes_ar exact [?r] ?p1 ?m1") (simp add: exact_ops)
  have h2: "\<not> collides_ar exact [?r] (vx ?p2) (vz ?p2) \<and>
      collides_ar exact [?r] (fadd exact (vx ?p2) (vx ?m2)) (fadd exact (vz ?p2) (vz ?m2))"
    and b2: "\<not> collides_ar exact [?r] (fadd exact (vx ?p2) (vx ?m2)) (vz ?p2)"
    by (simp_all add: dims_ar exact_ops)
  from t2 h2 b2 have
    "vx (resolveAxes_ar exact [?r] ?p2 ?m2) = fadd exact (vx ?p2) (vx ?m2)"
    "vz (resolveAxes_ar exact [?r] ?p2 ?m2) = vz ?p2"
    "vy (resolveAxes_ar exact [?r] ?p2 ?m2) = vy ?p2"
    by blast+
  then have b: "resolveAxes_ar exact [?r] ?p2 ?m2 = \<lparr>vx = 4.7, vy = 1.6, vz = 4.6\<rparr>"
    by (cases "resolveAxes_ar exact [?r] ?p2 ?m2") (simp add: exact_ops)
  have mv: "moveOf_ar exact ?c 0.05 = \<lparr>vx = 0, vy = 0, vz = - 0.15\<rparr>"
    by (simp add: moveOf_ar_def Let_def normalize_ar_def crossVectors_ar_def
        addScaledVector_ar_def exact_ops)
  have lk: "isLocked ?c" by simp
  from t3 lk have "cameraPosition (update_ar exact 0.05 ?c) =
      clampBounds (controls.bounds ?c)
        (resolveAxes_ar exact (controls.colliders ?c) (cameraPosition ?c)
           (moveOf_ar exact ?c 0.05))"
    by blast
  then have c: "cameraPosition (update_ar exact 0.05 ?c) = \<lparr>vx = 5.5, vy = 1.6, vz = 6.4\<rparr>"
    unfolding mv by (simp add: clampBounds_def resolveAxes_ar_def Let_def dims_ar exact_ops)
  from a b c show ?thesis by blast
qed

text \<open>
  C4 as stated fails on the boundary. A collider \<open>[5, 6] \<times> [5, 6]\<close> widened by the player
  radius 0.35 is \<open>[4.65, 6.35] \<times> [4.65, 6.35]\<close> and contains the candidate \<open>(4.65, 5.5)\<close>,
  a point of its left edge; the test of \<open>collides\<close> is strict, so it does not report this
  candidate and the X move from 4.5 by 0.15 is committed. (In doubles \<open>4.5 + 0.15\<close> and
  \<open>5 - 0.35\<close> are the same number as well.)
\<close>

theorem sliding_boundary_not_blocked:
  "(fsub exact (RectXZ.minX \<lparr>minX = 5, maxX = 6, minZ = 5, maxZ = 6\<rparr>) (playerRadius_ar exact) \<le> fadd exact 4.5 0.15 \<and>
    fadd exact 4.5 0.15 \<le> fadd exact (RectXZ.maxX \<lparr>minX = 5, maxX = 6, minZ = 5, maxZ = 6\<rparr>) (playerRadius_ar exact) \<and>
    fsub exact (RectXZ.minZ \<lparr>minX = 5, maxX = 6, minZ = 5, maxZ = 6\<rparr>) (playerRadius_ar exact) \<le> 5.5 \<and>
    5.5 \<le> fadd exact (RectXZ.maxZ \<lparr>minX = 5, maxX = 6, minZ = 5, maxZ = 6\<rparr>) (playerRadius_ar exact)) \<and>
   \<not> collides_ar exact [\<lparr>minX = 5, maxX = 6, minZ = 5, maxZ = 6\<rparr>] (fadd exact 4.5 0.15) 5.5 \<and>
   resolveAxes_ar exact [\<lparr>minX = 5, maxX = 6, minZ = 5, maxZ = 6\<rparr>]
     \<lparr>vx = 4.5, vy = 1.6, vz = 5.5\<rparr> \<lparr>vx = 0.15, vy = 0, vz = 0\<rparr> =
     \<lparr>vx = 4.65, vy = 1.6, vz = 5.5\<rparr>"
  by (simp add: resolveAxes_ar_def dims_ar exact_ops Let_def)

lemma clampBounds_within:
  assumes "Bounds.minX b \<le> Bounds.maxX b" and "Bounds.minY b \<le> Bounds.maxY b"
    and "Bounds.minZ b \<le> Bounds.maxZ b"
  shows "withinBounds b (clampBounds (Some b) v)"
  using assms by (simp add: withinBounds_def clampBounds_def)

lemma clampBounds_fixes: "withinBounds b v \<Longrightarrow> clampBounds (Some b) v = v"
  by (simp add: withinBounds_def clampBounds_def min_def max_def)

text \<open>
  C5, as the code has it. The clamp sets each coordinate \<open>v\<close> to
  \<open>min max_b (max min_b v)\<close>, and does nothing when no bounds are configured. An update
  under pointer lock changes the camera position only, to the clamp of the position the
  collision resolution gives. So on every update under pointer lock, with bounds
  configured whose minimum does not exceed the maximum on each axis, the camera position
  after the update lies within the bounds on all three axes, whatever the position
  before, the keys held and the colliders; and a resolved position already within the
  bounds is left where it is. Without pointer lock an update returns at once and changes
  nothing.
\<close>

theorem bounds_clamped_when_locked:
  "clampBounds None v = v \<and>
   clampBounds (Some b) v =
     \<lparr>vx = min (Bounds.maxX b) (max (Bounds.minX b) (vx v)),
      vy = min (Bounds.maxY b) (max (Bounds.minY b) (vy v)),
      vz = min (Bounds.maxZ b) (max (Bounds.minZ b) (vz v))\<rparr> \<and>
   (isLocked c \<longrightarrow>
      update_ar ar dt c =
        c\<lparr>cameraPosition :=
            clampBounds (controls.bounds c)
              (resolveAxes_ar ar (controls.colliders c) (cameraPosition c)
                 (moveOf_ar ar c dt))\<rparr>) \<and>
   (isLocked c \<and> controls.bounds c = Some b \<and>
    Bounds.minX b \<le> Bounds.maxX b \<and> Bounds.minY b \<le> Bounds.maxY b \<and>
    Bounds.minZ b \<le> Bounds.maxZ b \<longrightarrow>
      withinBounds b (cameraPosition (update_ar ar dt c))) \<and>
   (withinBounds b v \<longrightarrow> clampBounds (Some b) v = v) \<and>
   (\<not> isLocked c \<longrightarrow> update_ar ar dt c = c)"
proof (intro conjI impI)
  show "clampBounds None v = v"
    by (simp add: clampBounds_def)
  show "clampBounds (Some b) v =
     \<lparr>vx = min (Bounds.maxX b) (max (Bounds.minX b) (vx v)),
      vy = min (Bounds.maxY b) (max (Bounds.minY b) (vy v)),
      vz = min (Bounds.maxZ b) (max (Bounds.minZ b) (vz v))\<rparr>"
    by (simp add: clampBounds_def)
next
  assume "isLocked c"
  then show "update_ar ar dt c =
        c\<lparr>cameraPosition :=
            clampBounds (controls.bounds c)
              (resolveAxes_ar ar (controls.colliders c) (cameraPosition c)
                 (moveOf_ar ar c dt))\<rparr>"
    by (rule update_ar_locked)
next
  assume "isLocked c \<and> controls.bounds c = Some b \<and>
    Bounds.minX b \<le> Bounds.maxX b \<and> Bounds.minY b \<le> Bounds.maxY b \<and>
    Bounds.minZ b \<le> Bounds.maxZ b"
  then show "withinBounds b (cameraPosition (update_ar ar dt c))"
    by (simp add: update_ar_locked clampBounds_within)
next
  assume "withinBounds b v"
  then show "clampBounds (Some b) v = v"
    by (rule clampBounds_fixes)
next
  assume "\<not> isLocked c"
  then show "update_ar ar dt c = c"
    by (rule update_ar_unlocked)
qed

theorem bounds_clamped_when_locked_witness:
  "cameraPosition (update_ar exact 0.05
     \<lparr>keys = {''w''}, isLocked = True, yaw = 0, pitch = 0,
      cameraRotation = \<lparr>vx = 0, vy = 0, vz = 0\<rparr>,
      cameraPosition = \<lparr>vx = 100, vy = 50, vz = - 100\<rparr>,
      bounds = Some \<lparr>Bounds.minX = - 29.4, Bounds.maxX = 29.4, Bounds.minY = 0.9,
        Bounds.maxY = 3.2, Bounds.minZ = - 9.4, Bounds.maxZ = 23.4\<rparr>,
      colliders = []\<rparr>) = \<lparr>vx = 29.4, vy = 3.2, vz = - 9.4\<rparr> \<and>
   withinBounds \<lparr>Bounds.minX = - 29.4, Bounds.maxX = 29.4, Bounds.minY = 0.9,
        Bounds.maxY = 3.2, Bounds.minZ = - 9.4, Bounds.maxZ = 23.4\<rparr>
     (cameraPosition (update_ar exact 0.05
       \<lparr>keys = {''w''}, isLocked = True, yaw = 0, pitch = 0,
        cameraRotation = \<lparr>vx = 0, vy = 0, vz = 0\<rparr>,
        cameraPosition = \<lparr>vx = 100, vy = 50, vz = - 100\<rparr>,
        bounds = Some \<lparr>Bounds.minX = - 29.4, Bounds.maxX = 29.4, Bounds.minY = 0.9,
        Bounds.maxY = 3.2, Bounds.minZ = - 9.4, Bounds.maxZ = 23.4\<rparr>,
        colliders = []\<rparr>)) \<and>
   update_ar exact 0.05
     (createControls \<lparr>vx = 0, vy = 0, vz = 0\<rparr> \<lparr>vx = 100, vy = 50, vz = - 100\<rparr>
        (Some \<lparr>Bounds.minX = - 29.4, Bounds.maxX = 29.4, Bounds.minY = 0.9,
        Bounds.maxY = 3.2, Bounds.minZ = - 9.4, Bounds.maxZ = 23.4\<rparr>) []) =
     createControls \<lparr>vx = 0, vy = 0, vz = 0\<rparr> \<lparr>vx = 100, vy = 50, vz = - 100\<rparr>
        (Some \<lparr>Bounds.minX = - 29.4, Bounds.maxX = 29.4, Bounds.minY = 0.9,
        Bounds.maxY = 3.2, Bounds.minZ = - 9.4, Bounds.maxZ = 23.4\<rparr>) []"
proof -
  let ?b = "\<lparr>Bounds.minX = - 29.4, Bounds.maxX = 29.4, Bounds.minY = 0.9,
        Bounds.maxY = 3.2, Bounds.minZ = - 9.4, Bounds.maxZ = 23.4\<rparr>"
  let ?c = "\<lparr>keys = {''w''}, isLocked = True, yaw = 0, pitch = 0,
      cameraRotation = \<lparr>vx = 0, vy = 0, vz = 0\<rparr>,
      cameraPosition = \<lparr>vx = 100, vy = 50, vz = - 100\<rparr>,
      bounds = Some ?b, colliders = []\<rparr>"
  let ?u = "createControls \<lparr>vx = 0, vy = 0, vz = 0\<rparr> \<lparr>vx = 100, vy = 50, vz = - 100\<rparr>
        (Some ?b) []"
  note t = bounds_clamped_when_locked [where ar = exact and c = ?c and b = ?b and dt = "0.05"]
  note t' = bounds_clamped_when_locked [where ar = exact and c = ?u and dt = "0.05"]
  have h: "isLocked ?c \<and> controls.bounds ?c = Some ?b \<and>
      Bounds.minX ?b \<le> Bounds.maxX ?b \<and> Bounds.minY ?b \<le> Bounds.maxY ?b \<and>
      Bounds.minZ ?b \<le> Bounds.maxZ ?b"
    by simp
  from t h have w: "withinBounds ?b (cameraPosition (update_ar exact 0.05 ?c))"
    by blast
  have mv: "moveOf_ar exact ?c 0.05 = \<lparr>vx = 0, vy = 0, vz = - 0.15\<rparr>"
    by (simp add: moveOf_ar_def Let_def normalize_ar_def crossVectors_ar_def
        addScaledVector_ar_def exact_ops)
  have lk: "isLocked ?c" by simp
  from t lk have "update_ar exact 0.05 ?c =
      ?c\<lparr>cameraPosition :=
          clampBounds (controls.bounds ?c)
            (resolveAxes_ar exact (controls.colliders ?c) (cameraPosition ?c)
               (moveOf_ar exact ?c 0.05))\<rparr>"
    by blast
  then have p: "cameraPosition (update_ar exact 0.05 ?c) = \<lparr>vx = 29.4, vy = 3.2, vz = - 9.4\<rparr>"
    unfolding mv by (simp add: clampBounds_def resolveAxes_ar_def Let_def exact_ops)
  have "\<not> isLocked ?u"
    by (simp add: createControls_def)
  with t' have u: "update_ar exact 0.05 ?u = ?u"
    by blast
  from p w u show ?thesis by blast
qed

text \<open>
  C5 as stated fails, in every arithmetic. Before the pointer is locked (as right after
  \<open>createControls\<close>), \<open>update\<close> returns at once, so a camera placed outside the gallery's
  bounds stays there. And bounds whose minimum exceeds the maximum contain no position at
  all.
\<close>

theorem bounds_not_clamped_unlocked:
  "\<forall>ar.
   \<not> withinBounds \<lparr>Bounds.minX = - 29.4, Bounds.maxX = 29.4, Bounds.minY = 0.9,
        Bounds.maxY = 3.2, Bounds.minZ = - 9.4, Bounds.maxZ = 23.4\<rparr>
       (cameraPosition (update_ar ar 0.05
          (createControls \<lparr>vx = 0, vy = 0, vz = 0\<rparr> \<lparr>vx = 100, vy = 1.6, vz = 0\<rparr>
             (Some \<lparr>Bounds.minX = - 29.4, Bounds.maxX = 29.4, Bounds.minY = 0.9,
        Bounds.maxY = 3.2, Bounds.minZ = - 9.4, Bounds.maxZ = 23.4\<rparr>) []))) \<and>
   cameraPosition (update_ar ar 0.05
      (createControls \<lparr>vx = 0, vy = 0, vz = 0\<rparr> \<lparr>vx = 100, vy = 1.6, vz = 0\<rparr>
         (Some \<lparr>Bounds.minX = - 29.4, Bounds.maxX = 29.4, Bounds.minY = 0.9,
        Bounds.maxY = 3.2, Bounds.minZ = - 9.4, Bounds.maxZ = 23.4\<rparr>) [])) =
     \<lparr>vx = 100, vy = 1.6, vz = 0\<rparr> \<and>
   \<not> withinBounds \<lparr>Bounds.minX = 10, Bounds.maxX = 0, Bounds.minY = 0.9,
        Bounds.maxY = 3.2, Bounds.minZ = - 9.4, Bounds.maxZ = 23.4\<rparr>
       (cameraPosition (update_ar ar 0.05
          (pointerlockchange True
             (createControls \<lparr>vx = 0, vy = 0, vz = 0\<rparr> \<lparr>vx = 5, vy = 1.6, vz = 0\<rparr>
                (Some \<lparr>Bounds.minX = 10, Bounds.maxX = 0, Bounds.minY = 0.9,
        Bounds.maxY = 3.2, Bounds.minZ = - 9.4, Bounds.maxZ = 23.4\<rparr>) []))))"
  by (simp add: update_ar_def createControls_def pointerlockchange_def withinBounds_def
      clampBounds_def Let_def)

end
